theory Spec2Isabelle
  imports Complex_Main "HOL-Library.Sublist" "HOL-Library.AList"
begin

section \<open>Strings and paths\<close>

text \<open>
  Python \<open>str\<close> values are modelled as \<open>string\<close>. The archive module only ever compares
  suffixes against ASCII literals, so \<open>str.lower\<close> is modelled on the ASCII letters.
\<close>

definition lower_char :: "char \<Rightarrow> char" where
  "lower_char c =
     (let n = (of_char c :: nat) in if 65 \<le> n \<and> n \<le> 90 then char_of (n + 32) else c)"

definition lower :: "string \<Rightarrow> string" where
  "lower s = map lower_char s"

definition endswith :: "string \<Rightarrow> string \<Rightarrow> bool" where
  "endswith s t = suffix t s"

text \<open>\<open>s.split(c)\<close> and \<open>c.join(parts)\<close>.\<close>

fun split_sep :: "char \<Rightarrow> string \<Rightarrow> string list" where
  "split_sep c [] = [[]]"
| "split_sep c (x # xs) =
     (if x = c then [] # split_sep c xs
      else (case split_sep c xs of
              [] \<Rightarrow> [[x]]
            | part # parts \<Rightarrow> (x # part) # parts))"

fun join_sep :: "char \<Rightarrow> string list \<Rightarrow> string" where
  "join_sep c [] = []"
| "join_sep c [p] = p"
| "join_sep c (p # q # ps) = p @ c # join_sep c (q # ps)"

text \<open>\<open>s.rfind(c)\<close>: the index of the last occurrence, \<open>None\<close> for Python's \<open>-1\<close>.\<close>

fun rfind :: "char \<Rightarrow> string \<Rightarrow> nat option" where
  "rfind c [] = None"
| "rfind c (x # xs) =
     (case rfind c xs of
        Some i \<Rightarrow> Some (Suc i)
      | None \<Rightarrow> if x = c then Some 0 else None)"

text \<open>
  \<open>pathlib.PurePosixPath\<close>: the parts of a path are its non-empty components other than
  \<open>.\<close>; \<open>name\<close> is the last part, \<open>suffix\<close> is the name from its last dot on, unless that
  dot is the first or the last character of the name.
\<close>

definition path_parts :: "string \<Rightarrow> string list" where
  "path_parts p = filter (\<lambda>s. s \<noteq> [] \<and> s \<noteq> ''.'') (split_sep CHR ''/'' p)"

definition path_name :: "string \<Rightarrow> string" where
  "path_name p = (case rev (path_parts p) of [] \<Rightarrow> [] | n # _ \<Rightarrow> n)"

definition path_suffix :: "string \<Rightarrow> string" where
  "path_suffix p =
     (let name = path_name p in
      case rfind CHR ''.'' name of
        None \<Rightarrow> []
      | Some i \<Rightarrow> if 0 < i \<and> i < length name - 1 then drop i name else [])"

definition path_parent :: "string \<Rightarrow> string" where
  "path_parent p =
     (let anchored = (p \<noteq> [] \<and> hd p = CHR ''/'');
          up = butlast (path_parts p)
      in if anchored then CHR ''/'' # join_sep CHR ''/'' up
         else if up = [] then ''.'' else join_sep CHR ''/'' up)"

text \<open>\<open>os.path.join(a, b)\<close>, \<open>os.path.dirname\<close> and \<open>os.path.basename\<close> of \<open>posixpath\<close>.\<close>

definition os_path_join :: "string \<Rightarrow> string \<Rightarrow> string" where
  "os_path_join a b =
     (if b \<noteq> [] \<and> hd b = CHR ''/'' then b
      else if a = [] \<or> last a = CHR ''/'' then a @ b
      else a @ ''/'' @ b)"

definition rstrip_slash :: "string \<Rightarrow> string" where
  "rstrip_slash s = rev (dropWhile (\<lambda>c. c = CHR ''/'') (rev s))"

definition os_path_dirname :: "string \<Rightarrow> string" where
  "os_path_dirname p =
     (case rfind CHR ''/'' p of
        None \<Rightarrow> []
      | Some i \<Rightarrow>
          (let head = take (Suc i) p in
           if list_all (\<lambda>c. c = CHR ''/'') head then head else rstrip_slash head))"

definition os_path_basename :: "string \<Rightarrow> string" where
  "os_path_basename p =
     (case rfind CHR ''/'' p of None \<Rightarrow> p | Some i \<Rightarrow> drop (Suc i) p)"

text \<open>
  The directory prefix of \<open>d\<close>: a path lies below \<open>d\<close> when it extends this prefix.
\<close>

definition dir_prefix :: "string \<Rightarrow> string" where
  "dir_prefix d = (if d \<noteq> [] \<and> last d = CHR ''/'' then d else d @ ''/'')"

definition under :: "string \<Rightarrow> string \<Rightarrow> bool" where
  "under d p = (d \<noteq> [] \<and> prefix (dir_prefix d) p \<and> length (dir_prefix d) < length p)"

text \<open>\<open>os.path.relpath(full, d)\<close> for a \<open>full\<close> that \<open>os.walk(d)\<close> produced.\<close>

definition relpath :: "string \<Rightarrow> string \<Rightarrow> string" where
  "relpath full d = drop (length (dir_prefix d)) full"

text \<open>
  The proper ancestors of a path, outermost first: every non-empty prefix that ends just
  before a slash.
\<close>

fun cuts :: "string \<Rightarrow> string \<Rightarrow> string list" where
  "cuts pre [] = []"
| "cuts pre (x # xs) =
     (if x = CHR ''/'' \<and> pre \<noteq> [] then [pre] else []) @ cuts (pre @ [x]) xs"

definition ancestors :: "string \<Rightarrow> string list" where
  "ancestors p = cuts [] p"

section \<open>Exceptions\<close>

text \<open>
  The exceptions the module raises itself, those of the operating-system calls it makes,
  and \<open>BackendError\<close> for whatever a library (\<open>py7zr\<close>, \<open>rarfile\<close>, \<open>tarfile\<close>,
  \<open>pyminizip\<close>) raises. All of them are subclasses of \<open>Exception\<close>.
\<close>

datatype exn =
    FileNotFoundError string
  | FileExistsError string
  | NotADirectoryError string
  | IsADirectoryError string
  | ModuleNotFoundError string
  | RuntimeError string
  | ValueError string
  | CalledProcessError int "string list"
  | BadZipFile string
  | BackendError string

section \<open>The file system\<close>

text \<open>
  A file system is an association list from path strings to nodes; the order of the list
  is the order in which \<open>os.walk\<close> meets the files. Paths are kept in the form the module
  builds them in (\<open>os.path.join\<close> of a directory and a relative name). The content type
  \<open>'c\<close> of a file is left open.
\<close>

datatype 'c node = Dir | File 'c

record 'c world =
  fs :: "(string \<times> 'c node) list"
  unrar_tool :: "string option"

definition os_path_exists :: "'c world \<Rightarrow> string \<Rightarrow> bool" where
  "os_path_exists w p = (map_of (fs w) p \<noteq> None)"

definition is_file :: "'c world \<Rightarrow> string \<Rightarrow> bool" where
  "is_file w p = (case map_of (fs w) p of Some (File c) \<Rightarrow> True | _ \<Rightarrow> False)"

definition is_dir :: "'c world \<Rightarrow> string \<Rightarrow> bool" where
  "is_dir w p = (map_of (fs w) p = Some Dir)"

definition mkdir_one :: "string \<Rightarrow> 'c world \<Rightarrow> 'c world" where
  "mkdir_one q w = (if os_path_exists w q then w else w\<lparr>fs := fs w @ [(q, Dir)]\<rparr>)"

text \<open>
  \<open>os.makedirs(p, exist_ok=True)\<close>: creates \<open>p\<close> and its missing ancestors; raises when
  \<open>p\<close> is empty, is a regular file, or lies below a regular file.
\<close>

definition makedirs :: "string \<Rightarrow> 'c world \<Rightarrow> exn option \<times> 'c world" where
  "makedirs p w =
     (if p = [] then (Some (FileNotFoundError p), w)
      else if list_ex (is_file w) (ancestors p) then (Some (NotADirectoryError p), w)
      else if is_file w p then (Some (FileExistsError p), w)
      else (None, fold mkdir_one (ancestors p @ [p]) w))"

text \<open>
  Opening \<open>p\<close> for writing and storing \<open>c\<close>: raises when \<open>p\<close> is a directory or lies below
  a regular file. (Its parent directory has been made by the caller in every use.)
\<close>

definition write_file :: "string \<Rightarrow> 'c \<Rightarrow> 'c world \<Rightarrow> exn option \<times> 'c world" where
  "write_file p c w =
     (if is_dir w p then (Some (IsADirectoryError p), w)
      else if list_ex (is_file w) (ancestors p) then (Some (NotADirectoryError p), w)
      else (None, w\<lparr>fs := AList.update p (File c) (fs w)\<rparr>))"

text \<open>\<open>shutil.rmtree(d)\<close>: \<open>d\<close> and everything below it disappears.\<close>

definition rmtree :: "string \<Rightarrow> 'c world \<Rightarrow> 'c world" where
  "rmtree d w = w\<lparr>fs := filter (\<lambda>(p, n). p \<noteq> d \<and> \<not> under d p) (fs w)\<rparr>"

text \<open>
  The regular files \<open>os.walk(d)\<close> yields, each with its full path and its content. Walking
  the empty path yields nothing.
\<close>

definition walk_files :: "string \<Rightarrow> 'c world \<Rightarrow> (string \<times> 'c) list" where
  "walk_files d w =
     concat (map (\<lambda>(p, n). case n of File c \<Rightarrow> (if under d p then [(p, c)] else []) | Dir \<Rightarrow> [])
                 (fs w))"

section \<open>The environment of the module\<close>

text \<open>
  Everything the module calls but does not define is a field of the environment: the
  \<open>PATH\<close> lookup \<open>shutil.which\<close>, \<open>os.environ\<close>, whether the optional modules import, the
  name \<open>tempfile\<close> picks, the size of a content in bytes, the ZIP codec of \<open>zipfile\<close>, the
  readers and writers of \<open>tarfile\<close>, \<open>rarfile\<close>, \<open>py7zr\<close> and \<open>pyminizip\<close>, the external
  processes of \<open>subprocess.run\<close>, and the three floating-point operations the analysis
  uses. A library call that writes files returns the exception it raised, if any, and
  the world it left behind; \<open>run\<close> returns the exit status of the process.
\<close>

type_synonym 'c zmember = "string \<times> 'c \<times> string option"

record ('c, 'f) env =
  which :: "string \<Rightarrow> string option"
  environ :: "string \<Rightarrow> string option"
  rarfile_imported :: bool
  pyminizip_importable :: bool
  mkdtemp_name :: "'c world \<Rightarrow> string"
  getsize_file :: "'c \<Rightarrow> nat"
  getsize_dir :: nat
  zip_encode :: "bool \<Rightarrow> (string \<times> 'c) list \<Rightarrow> 'c"
  zip_decode :: "'c \<Rightarrow> 'c zmember list option"
  tar_extractall :: "string \<Rightarrow> string \<Rightarrow> 'c world \<Rightarrow> exn option \<times> 'c world"
  rar_extractall :: "string \<Rightarrow> string \<Rightarrow> string option \<Rightarrow> 'c world \<Rightarrow> exn option \<times> 'c world"
  rar_namelist :: "string \<Rightarrow> 'c world \<Rightarrow> exn + string list"
  rar_infolist :: "string \<Rightarrow> 'c world \<Rightarrow> exn + nat list"
  py7zr_writeall ::
    "string \<Rightarrow> string option \<Rightarrow> int \<Rightarrow> string \<Rightarrow> string \<Rightarrow> 'c world \<Rightarrow> exn option \<times> 'c world"
  py7zr_extractall :: "string \<Rightarrow> string option \<Rightarrow> string \<Rightarrow> 'c world \<Rightarrow> exn option \<times> 'c world"
  py7zr_getnames :: "string \<Rightarrow> 'c world \<Rightarrow> exn + string list"
  py7zr_list :: "string \<Rightarrow> 'c world \<Rightarrow> exn + nat option list"
  pyminizip_compress_multiple ::
    "string list \<Rightarrow> string list \<Rightarrow> string \<Rightarrow> string \<Rightarrow> int \<Rightarrow> 'c world \<Rightarrow> exn option \<times> 'c world"
  run :: "string list \<Rightarrow> string option \<Rightarrow> 'c world \<Rightarrow> (exn + int) \<times> 'c world"
  float_div :: "nat \<Rightarrow> nat \<Rightarrow> 'f"
  float_rsub :: "int \<Rightarrow> 'f \<Rightarrow> 'f"
  float_mul :: "'f \<Rightarrow> int \<Rightarrow> 'f"

text \<open>Python truthiness of an optional string: \<open>None\<close> and \<open>''\<close> are false.\<close>

definition truthy :: "string option \<Rightarrow> bool" where
  "truthy s = (case s of None \<Rightarrow> False | Some t \<Rightarrow> t \<noteq> [])"

section \<open>The \<open>zipfile\<close> calls the module makes\<close>

text \<open>
  \<open>zipfile.ZipFile(p, "r")\<close>: the members of the archive stored at \<open>p\<close>. A member is its
  name, its content and, when it is encrypted, the password it was encrypted with.
\<close>

definition zip_open_read :: "('c, 'f) env \<Rightarrow> string \<Rightarrow> 'c world \<Rightarrow> exn + 'c zmember list" where
  "zip_open_read E p w =
     (case map_of (fs w) p of
        None \<Rightarrow> Inl (FileNotFoundError p)
      | Some Dir \<Rightarrow> Inl (IsADirectoryError p)
      | Some (File c) \<Rightarrow>
          (case zip_decode E c of
             None \<Rightarrow> Inl (BadZipFile ''File is not a zip file'')
           | Some ms \<Rightarrow> Inr ms))"

text \<open>
  The name under which \<open>extractall\<close> stores a member: its components other than the
  empty one, \<open>.\<close> and \<open>..\<close>.
\<close>

definition sanitize :: "string \<Rightarrow> string" where
  "sanitize n =
     join_sep CHR ''/''
       (filter (\<lambda>s. s \<noteq> [] \<and> s \<noteq> ''.'' \<and> s \<noteq> ''..'') (split_sep CHR ''/'' n))"

text \<open>The password check of \<open>ZipFile.open(member, pwd)\<close>.\<close>

definition zip_check_pwd :: "string \<Rightarrow> string option \<Rightarrow> string option \<Rightarrow> exn option" where
  "zip_check_pwd n enc pwd =
     (case enc of
        None \<Rightarrow> None
      | Some k \<Rightarrow>
          (case pwd of
             None \<Rightarrow> Some (RuntimeError (''File '' @ n @ '' is encrypted, password required for extraction''))
           | Some q \<Rightarrow> if q = k then None else Some (RuntimeError (''Bad password for file '' @ n))))"

text \<open>
  \<open>ZipFile._extract_member\<close>: a member whose name ends in a slash is a directory; any
  other is written below \<open>out\<close> after its upper directories have been made.
\<close>

definition zip_extract_member ::
  "string \<Rightarrow> string option \<Rightarrow> 'c zmember \<Rightarrow> 'c world \<Rightarrow> exn option \<times> 'c world" where
  "zip_extract_member out pwd m w =
     (case m of (n, c, enc) \<Rightarrow>
        (let arc = sanitize n; target = os_path_join out arc; upper = os_path_dirname target in
         if endswith n ''/'' then makedirs (if arc = [] then out else target) w
         else if arc = [] then (Some (ValueError ''Empty filename.''), w)
         else
           (case (if upper \<noteq> [] \<and> \<not> os_path_exists w upper then makedirs upper w else (None, w)) of
              (Some e, w1) \<Rightarrow> (Some e, w1)
            | (None, w1) \<Rightarrow>
                (case zip_check_pwd n enc pwd of
                   Some e \<Rightarrow> (Some e, w1)
                 | None \<Rightarrow> write_file target c w1))))"

fun zip_extractall ::
  "string \<Rightarrow> string option \<Rightarrow> 'c zmember list \<Rightarrow> 'c world \<Rightarrow> exn option \<times> 'c world" where
  "zip_extractall out pwd [] w = (None, w)"
| "zip_extractall out pwd (m # ms) w =
     (case zip_extract_member out pwd m w of
        (Some e, w1) \<Rightarrow> (Some e, w1)
      | (None, w1) \<Rightarrow> zip_extractall out pwd ms w1)"

section \<open>The archive module\<close>

text \<open>
  The functions of \<open>converters/archive_converters.py\<close>, under their own names without the
  leading underscore. Each takes the environment first and the world last, and returns
  the value it returns or the exception it raises, with the world it leaves behind.
\<close>

definition ensure_dir :: "string \<Rightarrow> 'c world \<Rightarrow> exn option \<times> 'c world" where
  "ensure_dir p w = makedirs p w"

fun detect_tool :: "('c, 'f) env \<Rightarrow> string list \<Rightarrow> string option" where
  "detect_tool E [] = None"
| "detect_tool E (name # candidates) =
     (case which E name of
        None \<Rightarrow> detect_tool E candidates
      | Some p \<Rightarrow> if p \<noteq> [] then Some p else detect_tool E candidates)"

text \<open>
  \<open>ZipFile(out, "w")\<close> creates the (empty) file before \<open>os.walk\<close> starts; the archive
  itself is stored when the \<open>with\<close> block is left.
\<close>

definition zip_directory ::
  "('c, 'f) env \<Rightarrow> string \<Rightarrow> string \<Rightarrow> bool \<Rightarrow> 'c world \<Rightarrow> (exn + string) \<times> 'c world" where
  "zip_directory E src_dir out_zip_path compress w =
     (case ensure_dir (path_parent out_zip_path) w of
        (Some e, w1) \<Rightarrow> (Inl e, w1)
      | (None, w1) \<Rightarrow>
          (case write_file out_zip_path (zip_encode E compress []) w1 of
             (Some e, w2) \<Rightarrow> (Inl e, w2)
           | (None, w2) \<Rightarrow>
               (let members = map (\<lambda>(full, c). (relpath full src_dir, c)) (walk_files src_dir w2) in
                case write_file out_zip_path (zip_encode E compress members) w2 of
                  (Some e, w3) \<Rightarrow> (Inl e, w3)
                | (None, w3) \<Rightarrow> (Inr out_zip_path, w3))))"

definition create_7z_archive ::
  "('c, 'f) env \<Rightarrow> string \<Rightarrow> string \<Rightarrow> string option \<Rightarrow> int \<Rightarrow> 'c world \<Rightarrow> (exn + string) \<times> 'c world" where
  "create_7z_archive E src_dir out_7z_path password compression_level w =
     (case ensure_dir (path_parent out_7z_path) w of
        (Some e, w1) \<Rightarrow> (Inl e, w1)
      | (None, w1) \<Rightarrow>
          (case py7zr_writeall E out_7z_path password compression_level src_dir
                  (os_path_basename src_dir) w1 of
             (Some e, w2) \<Rightarrow> (Inl e, w2)
           | (None, w2) \<Rightarrow> (Inr out_7z_path, w2)))"

definition extract_7z_archive ::
  "('c, 'f) env \<Rightarrow> string \<Rightarrow> string \<Rightarrow> string option \<Rightarrow> 'c world \<Rightarrow> (exn + string) \<times> 'c world" where
  "extract_7z_archive E archive_path out_dir password w =
     (case ensure_dir out_dir w of
        (Some e, w1) \<Rightarrow> (Inl e, w1)
      | (None, w1) \<Rightarrow>
          (case py7zr_extractall E archive_path password out_dir w1 of
             (Some e, w2) \<Rightarrow> (Inl e, w2)
           | (None, w2) \<Rightarrow> (Inr out_dir, w2)))"

definition create_password_protected_zip ::
  "('c, 'f) env \<Rightarrow> string \<Rightarrow> string \<Rightarrow> string \<Rightarrow> int \<Rightarrow> 'c world \<Rightarrow> (exn + string) \<times> 'c world" where
  "create_password_protected_zip E src_dir out_zip_path password compression_level w =
     (if \<not> pyminizip_importable E then (Inl (ModuleNotFoundError ''pyminizip''), w)
      else
        (case ensure_dir (path_parent out_zip_path) w of
           (Some e, w1) \<Rightarrow> (Inl e, w1)
         | (None, w1) \<Rightarrow>
             (let file_list = map fst (walk_files src_dir w1);
                  prefix_list = map (\<lambda>full. relpath full src_dir) file_list
              in case pyminizip_compress_multiple E file_list prefix_list out_zip_path password
                        compression_level w1 of
                   (Some e, w2) \<Rightarrow> (Inl e, w2)
                 | (None, w2) \<Rightarrow> (Inr out_zip_path, w2))))"

text \<open>\<open>subprocess.run(cmd, check=True, cwd=...)\<close>.\<close>

definition run_checked ::
  "('c, 'f) env \<Rightarrow> string list \<Rightarrow> string option \<Rightarrow> 'c world \<Rightarrow> exn option \<times> 'c world" where
  "run_checked E cmd cwd w =
     (case run E cmd cwd w of
        (Inl e, w1) \<Rightarrow> (Some e, w1)
      | (Inr rc, w1) \<Rightarrow> if rc = 0 then (None, w1) else (Some (CalledProcessError rc cmd), w1))"

definition create_password_zip_alternative ::
  "('c, 'f) env \<Rightarrow> string \<Rightarrow> string \<Rightarrow> string \<Rightarrow> 'c world \<Rightarrow> (exn + string) \<times> 'c world" where
  "create_password_zip_alternative E src_dir out_zip_path password w =
     (case detect_tool E [''7z'', ''7za'', ''7zz''] of
        None \<Rightarrow> (Inl (RuntimeError ''7-Zip required for password-protected archives''), w)
      | Some sevenz \<Rightarrow>
          (case run_checked E [sevenz, ''a'', ''-tzip'', ''-p'' @ password, out_zip_path,
                               src_dir @ ''/*''] None w of
             (Some e, w1) \<Rightarrow> (Inl e, w1)
           | (None, w1) \<Rightarrow> (Inr out_zip_path, w1)))"

definition extract_with_7z ::
  "('c, 'f) env \<Rightarrow> string \<Rightarrow> string \<Rightarrow> string option \<Rightarrow> 'c world \<Rightarrow> (exn + string) \<times> 'c world" where
  "extract_with_7z E archive_path out_dir password w =
     (case detect_tool E [''7z'', ''7za'', ''7zz''] of
        None \<Rightarrow> (Inl (RuntimeError ''7-Zip (7z) not found. Install 7-Zip or add it to PATH.''), w)
      | Some sevenz \<Rightarrow>
          (let cmd = [sevenz, ''x''] @
                     (case password of
                        None \<Rightarrow> []
                      | Some pw \<Rightarrow> if pw \<noteq> [] then [''-p'' @ pw] else []) @
                     [''-y'', ''-o'' @ out_dir, archive_path]
           in case run_checked E cmd None w of
                (Some e, w1) \<Rightarrow> (Inl e, w1)
              | (None, w1) \<Rightarrow> (Inr out_dir, w1)))"

text \<open>
  \<open>_rarfile_can_extract\<close> also sets \<open>rarfile.UNRAR_TOOL\<close>, which is the world's
  \<open>unrar_tool\<close>.
\<close>

definition rarfile_can_extract :: "('c, 'f) env \<Rightarrow> 'c world \<Rightarrow> bool \<times> 'c world" where
  "rarfile_can_extract E w =
     (if \<not> rarfile_imported E then (False, w)
      else
        (let tool_env = (if truthy (environ E ''RARFILE_UNRAR_TOOL'')
                         then environ E ''RARFILE_UNRAR_TOOL'' else environ E ''UNRAR_PATH'')
         in case tool_env of
              None \<Rightarrow> (True, w)
            | Some t \<Rightarrow>
                if t \<noteq> [] \<and> os_path_exists w t then (True, w\<lparr>unrar_tool := Some t\<rparr>)
                else (True, w)))"

text \<open>
  \<open>with tempfile.TemporaryDirectory() as d: body\<close>. The directory is made under the name
  the environment picks, the body runs, and the directory is removed whether the body
  returned or raised.
\<close>

definition TemporaryDirectory ::
  "('c, 'f) env \<Rightarrow> (string \<Rightarrow> 'c world \<Rightarrow> (exn + 'a) \<times> 'c world) \<Rightarrow> 'c world
     \<Rightarrow> (exn + 'a) \<times> 'c world" where
  "TemporaryDirectory E body w =
     (let d = mkdtemp_name E w in
      if os_path_exists w d then (Inl (FileExistsError d), w)
      else (case body d (w\<lparr>fs := fs w @ [(d, Dir)]\<rparr>) of (r, w1) \<Rightarrow> (r, rmtree d w1)))"

definition extract_archive ::
  "('c, 'f) env \<Rightarrow> string \<Rightarrow> string \<Rightarrow> string option \<Rightarrow> 'c world \<Rightarrow> (exn + string) \<times> 'c world" where
  "extract_archive E file_path out_dir password w =
     (case ensure_dir out_dir w of
        (Some e, w1) \<Rightarrow> (Inl e, w1)
      | (None, w1) \<Rightarrow>
          (let lower_path = lower file_path in
           if endswith lower_path ''.zip'' then
             (case zip_open_read E file_path w1 of
                Inl e \<Rightarrow> (Inl e, w1)
              | Inr members \<Rightarrow>
                  (case zip_extractall out_dir (if truthy password then password else None)
                          members w1 of
                     (Some e, w2) \<Rightarrow> (Inl e, w2)
                   | (None, w2) \<Rightarrow> (Inr out_dir, w2)))
           else if endswith lower_path ''.tar'' \<or> endswith lower_path ''.tar.gz''
                   \<or> endswith lower_path ''.tgz'' then
             (case tar_extractall E file_path out_dir w1 of
                (Some e, w2) \<Rightarrow> (Inl e, w2)
              | (None, w2) \<Rightarrow> (Inr out_dir, w2))
           else if endswith lower_path ''.rar'' then
             (case rarfile_can_extract E w1 of
                (True, w2) \<Rightarrow>
                  (case rar_extractall E file_path out_dir password w2 of
                     (None, w3) \<Rightarrow> (Inr out_dir, w3)
                   | (Some e, w3) \<Rightarrow> extract_with_7z E file_path out_dir password w3)
              | (False, w2) \<Rightarrow> extract_with_7z E file_path out_dir password w2)
           else
             (case extract_with_7z E file_path out_dir password w1 of
                (Inr d, w2) \<Rightarrow> (Inr d, w2)
              | (Inl e, w2) \<Rightarrow>
                  (Inl (ValueError (''Unsupported archive type or missing extractor: '' @ file_path)),
                   w2))))"

definition rar_to_zip ::
  "('c, 'f) env \<Rightarrow> string \<Rightarrow> string \<Rightarrow> string option \<Rightarrow> 'c world \<Rightarrow> (exn + string) \<times> 'c world" where
  "rar_to_zip E rar_path out_zip_path password w =
     (if \<not> os_path_exists w rar_path then (Inl (FileNotFoundError rar_path), w)
      else
        TemporaryDirectory E
          (\<lambda>tmp w0.
             let extract_dir = os_path_join tmp ''extracted'' in
             case ensure_dir extract_dir w0 of
               (Some e, w1) \<Rightarrow> (Inl e, w1)
             | (None, w1) \<Rightarrow>
                 (case (case rarfile_can_extract E w1 of
                          (True, w2) \<Rightarrow>
                            (case rar_extractall E rar_path extract_dir password w2 of
                               (None, w3) \<Rightarrow> (True, w3)
                             | (Some e, w3) \<Rightarrow> (False, w3))
                        | (False, w2) \<Rightarrow> (False, w2)) of
                    (extracted, w4) \<Rightarrow>
                      (case (if \<not> extracted then extract_with_7z E rar_path extract_dir password w4
                             else (Inr extract_dir, w4)) of
                         (Inl e, w5) \<Rightarrow> (Inl e, w5)
                       | (Inr d, w5) \<Rightarrow> zip_directory E extract_dir out_zip_path True w5)))
          w)"

definition zip_to_rar ::
  "('c, 'f) env \<Rightarrow> string \<Rightarrow> string \<Rightarrow> string option \<Rightarrow> string option \<Rightarrow> 'c world
     \<Rightarrow> (exn + string) \<times> 'c world" where
  "zip_to_rar E zip_path out_rar_path password volume_size w =
     (if \<not> os_path_exists w zip_path then (Inl (FileNotFoundError zip_path), w)
      else
        (case detect_tool E [''rar'', ''winrar'', ''WinRAR''] of
           None \<Rightarrow> (Inl (RuntimeError ''RAR creation requires WinRAR (rar.exe) in PATH.''), w)
         | Some rar_cli \<Rightarrow>
             TemporaryDirectory E
               (\<lambda>tmp w0.
                  let extract_dir = os_path_join tmp ''zip_extract'' in
                  case ensure_dir extract_dir w0 of
                    (Some e, w1) \<Rightarrow> (Inl e, w1)
                  | (None, w1) \<Rightarrow>
                      (case zip_open_read E zip_path w1 of
                         Inl e \<Rightarrow> (Inl e, w1)
                       | Inr members \<Rightarrow>
                           (case zip_extractall extract_dir None members w1 of
                              (Some e, w2) \<Rightarrow> (Inl e, w2)
                            | (None, w2) \<Rightarrow>
                                (let cmd = [rar_cli, ''a'', ''-r'', ''-ep1''] @
                                           (case password of
                                              None \<Rightarrow> []
                                            | Some pw \<Rightarrow> if pw \<noteq> [] then [''-p'' @ pw] else []) @
                                           (case volume_size of
                                              None \<Rightarrow> []
                                            | Some v \<Rightarrow> if v \<noteq> [] then [''-v'' @ v] else []) @
                                           [out_rar_path, ''.'']
                                 in case run_checked E cmd (Some extract_dir) w2 of
                                      (Some e, w3) \<Rightarrow> (Inl e, w3)
                                    | (None, w3) \<Rightarrow> (Inr out_rar_path, w3)))))
               w))"

text \<open>
  \<open>convert_archive_format\<close> in its two stages: the extraction by input suffix (the first
  \<open>if\<close> chain of its body) and the creation by output suffix (the second).
\<close>

definition extract_input ::
  "('c, 'f) env \<Rightarrow> string \<Rightarrow> string \<Rightarrow> string \<Rightarrow> string option \<Rightarrow> 'c world
     \<Rightarrow> (exn + string) \<times> 'c world" where
  "extract_input E input_ext input_path extract_dir password w =
     (if input_ext = ''.zip'' then extract_archive E input_path extract_dir password w
      else if input_ext = ''.rar'' then extract_archive E input_path extract_dir password w
      else if input_ext = ''.7z'' then extract_7z_archive E input_path extract_dir password w
      else (Inl (ValueError (''Unsupported input format: '' @ input_ext)), w))"

definition create_output ::
  "('c, 'f) env \<Rightarrow> string \<Rightarrow> string \<Rightarrow> string \<Rightarrow> string option \<Rightarrow> int \<Rightarrow> 'c world
     \<Rightarrow> (exn + string) \<times> 'c world" where
  "create_output E output_ext extract_dir output_path password compression_level w =
     (if output_ext = ''.zip'' then
        (case password of
           None \<Rightarrow> zip_directory E extract_dir output_path True w
         | Some pw \<Rightarrow>
             if pw \<noteq> [] then
               create_password_protected_zip E extract_dir output_path pw compression_level w
             else zip_directory E extract_dir output_path True w)
      else if output_ext = ''.7z'' then
        create_7z_archive E extract_dir output_path password compression_level w
      else if output_ext = ''.rar'' then
        zip_to_rar E (extract_dir @ ''.zip'') output_path password None w
      else (Inl (ValueError (''Unsupported output format: '' @ output_ext)), w))"

definition convert_archive_format ::
  "('c, 'f) env \<Rightarrow> string \<Rightarrow> string \<Rightarrow> string option \<Rightarrow> int \<Rightarrow> 'c world \<Rightarrow> (exn + string) \<times> 'c world" where
  "convert_archive_format E input_path output_path password compression_level w =
     (let input_ext = lower (path_suffix input_path);
          output_ext = lower (path_suffix output_path)
      in TemporaryDirectory E
           (\<lambda>temp_dir w0.
              let extract_dir = os_path_join temp_dir ''extracted'' in
              case extract_input E input_ext input_path extract_dir password w0 of
                (Inl e, w1) \<Rightarrow> (Inl e, w1)
              | (Inr d, w1) \<Rightarrow>
                  create_output E output_ext extract_dir output_path password compression_level w1)
           w)"

text \<open>
  The report of \<open>analyze_archive_info\<close>. \<open>compression_ratio\<close> starts as the integer \<open>0\<close>
  and becomes a float when it is computed; \<open>error\<close> holds the exception whose text the
  code stores under the key \<open>error\<close>.
\<close>

datatype 'f pynum = PyInt int | PyFloat 'f

record 'f info =
  info_format :: string
  info_size :: nat
  info_files :: "string list"
  info_compression_ratio :: "'f pynum"
  info_total_uncompressed :: nat
  info_error :: "exn option"

text \<open>\<open>os.path.getsize\<close>.\<close>

definition getsize :: "('c, 'f) env \<Rightarrow> 'c world \<Rightarrow> string \<Rightarrow> exn + nat" where
  "getsize E w p =
     (case map_of (fs w) p of
        None \<Rightarrow> Inl (FileNotFoundError p)
      | Some Dir \<Rightarrow> Inr (getsize_dir E)
      | Some (File c) \<Rightarrow> Inr (getsize_file E c))"

text \<open>The last statement of the \<open>try\<close> block: the ratio, when something was counted.\<close>

definition calculate_ratio :: "('c, 'f) env \<Rightarrow> 'f info \<Rightarrow> 'f info" where
  "calculate_ratio E i =
     (if 0 < info_total_uncompressed i then
        i\<lparr>info_compression_ratio :=
             PyFloat (float_mul E
                        (float_rsub E 1 (float_div E (info_size i) (info_total_uncompressed i)))
                        100)\<rparr>
      else i)"

definition analyze_archive_info ::
  "('c, 'f) env \<Rightarrow> string \<Rightarrow> 'c world \<Rightarrow> (exn + 'f info) \<times> 'c world" where
  "analyze_archive_info E archive_path w =
     (case getsize E w archive_path of
        Inl e \<Rightarrow> (Inl e, w)
      | Inr sz \<Rightarrow>
          (let i = \<lparr>info_format = lower (path_suffix archive_path), info_size = sz,
                    info_files = [], info_compression_ratio = PyInt 0,
                    info_total_uncompressed = 0, info_error = None\<rparr>
           in if info_format i = ''.zip'' then
                (case zip_open_read E archive_path w of
                   Inl e \<Rightarrow> (Inr (i\<lparr>info_error := Some e\<rparr>), w)
                 | Inr members \<Rightarrow>
                     (Inr (calculate_ratio E
                             (i\<lparr>info_files := map fst members,
                                info_total_uncompressed :=
                                  sum_list (map (\<lambda>(n, c, enc). getsize_file E c) members)\<rparr>)), w))
              else if info_format i = ''.7z'' then
                (case py7zr_getnames E archive_path w of
                   Inl e \<Rightarrow> (Inr (i\<lparr>info_error := Some e\<rparr>), w)
                 | Inr names \<Rightarrow>
                     (case py7zr_list E archive_path w of
                        Inl e \<Rightarrow> (Inr (i\<lparr>info_files := names, info_error := Some e\<rparr>), w)
                      | Inr entries \<Rightarrow>
                          (Inr (calculate_ratio E
                                  (i\<lparr>info_files := names,
                                     info_total_uncompressed :=
                                       fold (\<lambda>u total. total + (case u of None \<Rightarrow> 0 | Some n \<Rightarrow> n))
                                            entries 0\<rparr>)), w)))
              else if info_format i = ''.rar'' then
                (case rarfile_can_extract E w of
                   (False, w1) \<Rightarrow> (Inr (calculate_ratio E i), w1)
                 | (True, w1) \<Rightarrow>
                     (case rar_namelist E archive_path w1 of
                        Inl e \<Rightarrow> (Inr (i\<lparr>info_error := Some e\<rparr>), w1)
                      | Inr names \<Rightarrow>
                          (case rar_infolist E archive_path w1 of
                             Inl e \<Rightarrow> (Inr (i\<lparr>info_files := names, info_error := Some e\<rparr>), w1)
                           | Inr sizes \<Rightarrow>
                               (Inr (calculate_ratio E
                                       (i\<lparr>info_files := names,
                                          info_total_uncompressed := sum_list sizes\<rparr>)), w1))))
              else (Inr (calculate_ratio E i), w)))"

section \<open>A concrete environment\<close>

text \<open>
  An environment to run the module in: file contents are raw bytes or a ZIP archive
  given by its members, every tool is installed and every library call succeeds without
  touching the file system. The instances below change one field at a time.
\<close>

datatype blob = Raw "nat list" | Zipped bool "(string \<times> blob \<times> string option) list"

fun blob_size :: "blob \<Rightarrow> nat" where
  "blob_size (Raw bs) = length bs"
| "blob_size (Zipped c ms) = 22 + sum_list (map (\<lambda>(n, b, k). 76 + 2 * length n + blob_size b) ms)"

fun blob_decode :: "blob \<Rightarrow> blob zmember list option" where
  "blob_decode (Raw bs) = None"
| "blob_decode (Zipped c ms) = Some ms"

definition demo_env :: "(blob, real) env" where
  "demo_env =
     \<lparr>which = (\<lambda>name. if name = ''7z'' then Some ''/usr/bin/7z''
                      else if name = ''rar'' then Some ''/usr/bin/rar'' else None),
      environ = (\<lambda>name. None),
      rarfile_imported = True,
      pyminizip_importable = True,
      mkdtemp_name = (\<lambda>w. ''/tmp/tmp'' @ replicate (length (fs w)) CHR ''x''),
      getsize_file = blob_size,
      getsize_dir = 4096,
      zip_encode = (\<lambda>c ms. Zipped c (map (\<lambda>(n, b). (n, b, None)) ms)),
      zip_decode = blob_decode,
      tar_extractall = (\<lambda>p out w. (None, w)),
      rar_extractall = (\<lambda>p out pw w. (None, w)),
      rar_namelist = (\<lambda>p w. Inr []),
      rar_infolist = (\<lambda>p w. Inr []),
      py7zr_writeall = (\<lambda>out pw preset src arc w. (None, w)),
      py7zr_extractall = (\<lambda>p pw out w. (None, w)),
      py7zr_getnames = (\<lambda>p w. Inr []),
      py7zr_list = (\<lambda>p w. Inr []),
      pyminizip_compress_multiple = (\<lambda>files prefixes out pw level w. (None, w)),
      run = (\<lambda>cmd cwd w. (Inr 0, w)),
      float_div = (\<lambda>a b. real a / real b),
      float_rsub = (\<lambda>a x. real_of_int a - x),
      float_mul = (\<lambda>x b. x * real_of_int b)\<rparr>"

definition demo_world :: "blob world" where
  "demo_world =
     \<lparr>fs = [(''/tmp'', Dir),
            (''/in'', Dir),
            (''/in/a.zip'', File (Zipped True [(''a.txt'', Raw [104, 105], None)])),
            (''/in/a.rar'', File (Raw [82, 97, 114, 33])),
            (''/in/a.7z'', File (Raw [55, 122])),
            (''/in/a.tar'', File (Raw [117, 115, 116, 97, 114])),
            (''/src'', Dir),
            (''/src/a.txt'', File (Raw [104, 105])),
            (''/src/b'', Dir),
            (''/src/b/c.txt'', File (Raw [119, 111, 114, 108, 100]))],
      unrar_tool = None\<rparr>"

section \<open>What an extraction may create\<close>

text \<open>
  A path is confined to the directory \<open>out\<close> when it is \<open>out\<close>, a leading part of \<open>out\<close>
  (one of its ancestors), or lies below \<open>out\<close>. A step from one world to another grows
  within \<open>out\<close> when every path it created is confined to \<open>out\<close>. The library extractors
  and the 7-Zip process are confined when each extraction into \<open>out\<close> grows within \<open>out\<close>.
\<close>

definition confined_to :: "string \<Rightarrow> string \<Rightarrow> bool" where
  "confined_to out p \<longleftrightarrow> prefix p out \<or> prefix (out @ ''/'') p"

definition grows_within :: "string \<Rightarrow> 'c world \<Rightarrow> 'c world \<Rightarrow> bool" where
  "grows_within out w w' \<longleftrightarrow> (\<forall>p. os_path_exists w' p \<longrightarrow> os_path_exists w p \<or> confined_to out p)"

definition extractors_confined :: "('c, 'f) env \<Rightarrow> bool" where
  "extractors_confined E \<longleftrightarrow>
     (\<forall>archive out pw w. grows_within out w (snd (rar_extractall E archive out pw w)))
     \<and> (\<forall>archive out w. grows_within out w (snd (tar_extractall E archive out w)))
     \<and> (\<forall>archive out pw w. grows_within out w (snd (py7zr_extractall E archive pw out w)))
     \<and> (\<forall>sevenz flags archive out w.
           grows_within out w
             (snd (run E ([sevenz, ''x''] @ flags @ [''-y'', ''-o'' @ out, archive]) None w)))"

section \<open>The files of a directory tree\<close>






section \<open>Properties\<close>

subsection \<open>The staging directory\<close>

lemma map_of_filter_key:
  "map_of (filter (\<lambda>(p, n). Q p) xs) k = (if Q k then map_of xs k else None)"
  by (induction xs) auto

lemma rmtree_removes:
  "p = d \<or> under d p \<Longrightarrow> \<not> os_path_exists (rmtree d w) p"
  by (auto simp: os_path_exists_def rmtree_def map_of_filter_key)

lemma TemporaryDirectory_cleanup:
  assumes "\<not> os_path_exists w (mkdtemp_name E w)"
    and "p = mkdtemp_name E w \<or> under (mkdtemp_name E w) p"
  shows "\<not> os_path_exists (snd (TemporaryDirectory E body w)) p"
  using assms by (auto simp: TemporaryDirectory_def Let_def rmtree_removes split: prod.splits)

lemma demo_mkdtemp: "mkdtemp_name demo_env demo_world = ''/tmp/tmpxxxxxxxxxx''"
  by (simp add: demo_env_def demo_world_def)

lemma demo_fresh: "\<not> os_path_exists demo_world ''/tmp/tmpxxxxxxxxxx''"
  by (simp add: os_path_exists_def demo_world_def)

text \<open>
  Claim C1. Let \<open>tempfile\<close> pick a name that is not taken, so that the call makes its
  staging directory under it. Then in the world any call of \<open>convert_archive_format\<close>
  leaves behind, whether it returned a path or raised (from the extraction stage, the
  compression stage or anywhere else), neither that directory nor anything below it
  exists. The same holds for \<open>rar_to_zip\<close> and \<open>zip_to_rar\<close> whenever they get as far as
  making a staging directory; when they raise before that, they leave the world as it
  was.
\<close>

theorem staging_directory_removed:
  assumes fresh: "\<not> os_path_exists w (mkdtemp_name E w)"
    and below: "p = mkdtemp_name E w \<or> under (mkdtemp_name E w) p"
  shows "\<not> os_path_exists
             (snd (convert_archive_format E input_path output_path password level w)) p
         \<and> (if os_path_exists w rar_path
            then \<not> os_path_exists (snd (rar_to_zip E rar_path out_zip_path password w)) p
            else snd (rar_to_zip E rar_path out_zip_path password w) = w)
         \<and> (if os_path_exists w zip_path \<and> detect_tool E [''rar'', ''winrar'', ''WinRAR''] \<noteq> None
            then \<not> os_path_exists
                      (snd (zip_to_rar E zip_path out_rar_path password volume_size w)) p
            else snd (zip_to_rar E zip_path out_rar_path password volume_size w) = w)"
proof (intro conjI)
  show "\<not> os_path_exists
            (snd (convert_archive_format E input_path output_path password level w)) p"
    unfolding convert_archive_format_def Let_def
    by (rule TemporaryDirectory_cleanup [OF fresh below])
  show "if os_path_exists w rar_path
        then \<not> os_path_exists (snd (rar_to_zip E rar_path out_zip_path password w)) p
        else snd (rar_to_zip E rar_path out_zip_path password w) = w"
    unfolding rar_to_zip_def
    by (simp add: TemporaryDirectory_cleanup [OF fresh below])
  show "if os_path_exists w zip_path \<and> detect_tool E [''rar'', ''winrar'', ''WinRAR''] \<noteq> None
        then \<not> os_path_exists
                  (snd (zip_to_rar E zip_path out_rar_path password volume_size w)) p
        else snd (zip_to_rar E zip_path out_rar_path password volume_size w) = w"
    unfolding zip_to_rar_def
    by (auto simp: TemporaryDirectory_cleanup [OF fresh below] split: option.splits)
qed

theorem staging_directory_removed_witness:
  "\<not> os_path_exists demo_world (mkdtemp_name demo_env demo_world)
   \<and> under (mkdtemp_name demo_env demo_world) ''/tmp/tmpxxxxxxxxxx/extracted''
   \<and> os_path_exists demo_world ''/in/a.rar''
   \<and> \<not> os_path_exists
         (snd (convert_archive_format demo_env ''/in/a.zip'' ''/out/b.7z'' None 5 demo_world))
         ''/tmp/tmpxxxxxxxxxx/extracted''
   \<and> \<not> os_path_exists
         (snd (rar_to_zip demo_env ''/in/a.rar'' ''/out/b.zip'' None demo_world))
         ''/tmp/tmpxxxxxxxxxx/extracted''"
proof -
  have f: "\<not> os_path_exists demo_world (mkdtemp_name demo_env demo_world)"
    by (simp add: demo_mkdtemp demo_fresh)
  have b: "under (mkdtemp_name demo_env demo_world) ''/tmp/tmpxxxxxxxxxx/extracted''"
    by (simp add: demo_mkdtemp under_def dir_prefix_def)
  have e: "os_path_exists demo_world ''/in/a.rar''"
    by (simp add: os_path_exists_def demo_world_def)
  from staging_directory_removed [OF f disjI2 [OF b], of "''/in/a.zip''" "''/out/b.7z''" None 5
      "''/in/a.rar''" "''/out/b.zip''"] f b e
  show ?thesis by simp
qed

subsection \<open>The input formats of the conversion\<close>

lemma unsupported_input:
  assumes "ext \<noteq> ''.zip''" "ext \<noteq> ''.rar''" "ext \<noteq> ''.7z''"
  shows "extract_input E ext input_path extract_dir password w
           = (Inl (ValueError (''Unsupported input format: '' @ ext)), w)"
  using assms by (simp add: extract_input_def)

lemma convert_unsupported_input:
  assumes "\<not> os_path_exists w (mkdtemp_name E w)"
    and "lower (path_suffix input_path) \<notin> {''.zip'', ''.rar'', ''.7z''}"
  shows "fst (convert_archive_format E input_path output_path password level w)
           = Inl (ValueError (''Unsupported input format: '' @ lower (path_suffix input_path)))"
  using assms
  by (simp add: convert_archive_format_def TemporaryDirectory_def Let_def unsupported_input)

text \<open>
  Claim C9, as amended. The conversion classifies its input by the lower-cased suffix
  of the path alone and accepts exactly three suffixes. In every environment and world
  (where the staging directory can be made): for a suffix other than \<open>.zip\<close>, \<open>.rar\<close>
  and \<open>.7z\<close> it raises \<open>ValueError("Unsupported input format: <suffix>")\<close>; for \<open>.zip\<close>
  and \<open>.rar\<close> it runs \<open>extract_archive\<close> and for \<open>.7z\<close> it runs \<open>extract_7z_archive\<close>
  on the staging directory, and the outcome of the conversion is then the error of that
  extractor, if it raised, and the outcome of the output stage otherwise. The suffixes
  \<open>.tar\<close>, \<open>.gz\<close> and \<open>.tgz\<close> are therefore rejected as input.
\<close>

theorem convert_input_formats:
  assumes tmp: "tmp = mkdtemp_name E w" "\<not> os_path_exists w tmp"
    and ext: "ext = lower (path_suffix input_path)"
    and extract_dir: "extract_dir = os_path_join tmp ''extracted''"
    and w0: "w0 = w\<lparr>fs := fs w @ [(tmp, Dir)]\<rparr>"
  shows "(ext \<notin> {''.zip'', ''.rar'', ''.7z''} \<longrightarrow>
            fst (convert_archive_format E input_path output_path password level w)
              = Inl (ValueError (''Unsupported input format: '' @ ext)))
       \<and> (ext \<in> {''.zip'', ''.rar''} \<longrightarrow>
            (\<forall>e w1. extract_archive E input_path extract_dir password w0 = (Inl e, w1) \<longrightarrow>
               fst (convert_archive_format E input_path output_path password level w) = Inl e)
          \<and> (\<forall>d w1. extract_archive E input_path extract_dir password w0 = (Inr d, w1) \<longrightarrow>
               fst (convert_archive_format E input_path output_path password level w)
                 = fst (create_output E (lower (path_suffix output_path)) extract_dir
                          output_path password level w1)))
       \<and> (ext = ''.7z'' \<longrightarrow>
            (\<forall>e w1. extract_7z_archive E input_path extract_dir password w0 = (Inl e, w1) \<longrightarrow>
               fst (convert_archive_format E input_path output_path password level w) = Inl e)
          \<and> (\<forall>d w1. extract_7z_archive E input_path extract_dir password w0 = (Inr d, w1) \<longrightarrow>
               fst (convert_archive_format E input_path output_path password level w)
                 = fst (create_output E (lower (path_suffix output_path)) extract_dir
                          output_path password level w1)))"
proof (intro conjI impI allI)
  assume "ext \<notin> {''.zip'', ''.rar'', ''.7z''}"
  with tmp show "fst (convert_archive_format E input_path output_path password level w)
              = Inl (ValueError (''Unsupported input format: '' @ ext))"
    unfolding ext by (simp add: convert_unsupported_input)
next
  fix e w1
  assume "ext \<in> {''.zip'', ''.rar''}"
    and "extract_archive E input_path extract_dir password w0 = (Inl e, w1)"
  then have "extract_input E ext input_path extract_dir password w0 = (Inl e, w1)"
    by (auto simp: extract_input_def)
  with tmp show "fst (convert_archive_format E input_path output_path password level w) = Inl e"
    by (simp add: convert_archive_format_def TemporaryDirectory_def Let_def ext [symmetric]
        extract_dir [symmetric] w0 [symmetric] tmp(1) [symmetric])
next
  fix d w1
  assume "ext \<in> {''.zip'', ''.rar''}"
    and "extract_archive E input_path extract_dir password w0 = (Inr d, w1)"
  then have "extract_input E ext input_path extract_dir password w0 = (Inr d, w1)"
    by (auto simp: extract_input_def)
  with tmp show "fst (convert_archive_format E input_path output_path password level w)
                 = fst (create_output E (lower (path_suffix output_path)) extract_dir
                          output_path password level w1)"
    by (simp add: convert_archive_format_def TemporaryDirectory_def Let_def ext [symmetric]
        extract_dir [symmetric] w0 [symmetric] tmp(1) [symmetric] split: prod.splits)
next
  fix e w1
  assume "ext = ''.7z''"
    and "extract_7z_archive E input_path extract_dir password w0 = (Inl e, w1)"
  then have "extract_input E ext input_path extract_dir password w0 = (Inl e, w1)"
    by (simp add: extract_input_def)
  with tmp show "fst (convert_archive_format E input_path output_path password level w) = Inl e"
    by (simp add: convert_archive_format_def TemporaryDirectory_def Let_def ext [symmetric]
        extract_dir [symmetric] w0 [symmetric] tmp(1) [symmetric])
next
  fix d w1
  assume "ext = ''.7z''"
    and "extract_7z_archive E input_path extract_dir password w0 = (Inr d, w1)"
  then have "extract_input E ext input_path extract_dir password w0 = (Inr d, w1)"
    by (simp add: extract_input_def)
  with tmp show "fst (convert_archive_format E input_path output_path password level w)
                 = fst (create_output E (lower (path_suffix output_path)) extract_dir
                          output_path password level w1)"
    by (simp add: convert_archive_format_def TemporaryDirectory_def Let_def ext [symmetric]
        extract_dir [symmetric] w0 [symmetric] tmp(1) [symmetric] split: prod.splits)
qed

theorem convert_input_formats_witness:
  "\<not> os_path_exists demo_world (mkdtemp_name demo_env demo_world)
   \<and> lower (path_suffix ''/in/a.tar'') = ''.tar''
   \<and> fst (convert_archive_format demo_env ''/in/a.tar'' ''/out/b.zip'' None 5 demo_world)
       = Inl (ValueError ''Unsupported input format: .tar'')
   \<and> lower (path_suffix ''/in/a.7z'') = ''.7z''
   \<and> fst (extract_7z_archive
             (demo_env\<lparr>py7zr_extractall := (\<lambda>p pw out w. (Some (BackendError ''Bad7zFile''), w))\<rparr>)
             ''/in/a.7z'' ''/tmp/tmpxxxxxxxxxx/extracted'' None
             (demo_world\<lparr>fs := fs demo_world @ [(''/tmp/tmpxxxxxxxxxx'', Dir)]\<rparr>))
       = Inl (BackendError ''Bad7zFile'')
   \<and> fst (convert_archive_format
             (demo_env\<lparr>py7zr_extractall := (\<lambda>p pw out w. (Some (BackendError ''Bad7zFile''), w))\<rparr>)
             ''/in/a.7z'' ''/out/b.zip'' None 5 demo_world)
       = Inl (BackendError ''Bad7zFile'')
   \<and> lower (path_suffix ''/in/a.zip'') = ''.zip''
   \<and> fst (convert_archive_format demo_env ''/in/a.zip'' ''/out/b.zip'' None 5 demo_world)
       = Inr ''/out/b.zip''"
proof -
  define E7 where "E7 = demo_env\<lparr>py7zr_extractall :=
                          (\<lambda>p pw out w. (Some (BackendError ''Bad7zFile''), w))\<rparr>"
  define w0 where "w0 = demo_world\<lparr>fs := fs demo_world @ [(''/tmp/tmpxxxxxxxxxx'', Dir)]\<rparr>"
  have n: "''/tmp/tmpxxxxxxxxxx'' = mkdtemp_name demo_env demo_world"
    by code_simp
  have n7: "''/tmp/tmpxxxxxxxxxx'' = mkdtemp_name E7 demo_world"
    unfolding E7_def by code_simp
  have f: "\<not> os_path_exists demo_world ''/tmp/tmpxxxxxxxxxx''"
    by code_simp
  have x: "''/tmp/tmpxxxxxxxxxx/extracted'' = os_path_join ''/tmp/tmpxxxxxxxxxx'' ''extracted''"
    by code_simp
  have st: "lower (path_suffix ''/in/a.tar'') = ''.tar''"
    by code_simp
  have s7: "lower (path_suffix ''/in/a.7z'') = ''.7z''"
    by code_simp
  have sz: "lower (path_suffix ''/in/a.zip'') = ''.zip''"
    by code_simp
  have x7: "fst (extract_7z_archive E7 ''/in/a.7z'' ''/tmp/tmpxxxxxxxxxx/extracted'' None w0)
              = Inl (BackendError ''Bad7zFile'')"
    unfolding E7_def w0_def by code_simp
  then obtain w1 where x7': "extract_7z_archive E7 ''/in/a.7z'' ''/tmp/tmpxxxxxxxxxx/extracted''
                               None w0 = (Inl (BackendError ''Bad7zFile''), w1)"
    by (cases "extract_7z_archive E7 ''/in/a.7z'' ''/tmp/tmpxxxxxxxxxx/extracted'' None w0") simp
  have z: "fst (convert_archive_format demo_env ''/in/a.zip'' ''/out/b.zip'' None 5 demo_world)
             = Inr ''/out/b.zip''"
    by code_simp
  from convert_input_formats [OF n f st [symmetric] x refl,
      of "''/out/b.zip''" None 5]
  have t: "fst (convert_archive_format demo_env ''/in/a.tar'' ''/out/b.zip'' None 5 demo_world)
       = Inl (ValueError ''Unsupported input format: .tar'')"
    by simp
  from convert_input_formats [OF n7 f s7 [symmetric] x w0_def,
      of "''/out/b.zip''" None 5] x7'
  have b: "fst (convert_archive_format E7 ''/in/a.7z'' ''/out/b.zip'' None 5 demo_world)
       = Inl (BackendError ''Bad7zFile'')"
    by simp
  from n f st t s7 x7 b sz z show ?thesis
    unfolding E7_def w0_def by simp
qed

text \<open>
  Claim C9 as stated fails: a \<open>.tar\<close> archive, one of the five kinds, is refused as
  input of the conversion.
\<close>

theorem tar_input_rejected:
  "fst (convert_archive_format demo_env ''/in/a.tar'' ''/out/b.zip'' None 5 demo_world)
     = Inl (ValueError ''Unsupported input format: .tar'')"
  by code_simp

subsection \<open>Extraction of RAR archives\<close>

lemma endswith_exclusive:
  assumes "endswith s a" and "\<not> suffix a b" and "\<not> suffix b a"
  shows "\<not> endswith s b"
  using assms suffix_same_cases [of a s b] by (auto simp: endswith_def)

lemma rar_not_zip: "endswith s ''.rar'' \<Longrightarrow> \<not> endswith s ''.zip''"
  by (erule endswith_exclusive) (simp_all add: suffix_Cons)

lemma rar_not_tar:
  "endswith s ''.rar'' \<Longrightarrow>
     \<not> endswith s ''.tar'' \<and> \<not> endswith s ''.tar.gz'' \<and> \<not> endswith s ''.tgz''"
  by (intro conjI; erule endswith_exclusive) (simp_all add: suffix_Cons)

lemma sevenz_not_other:
  "endswith s ''.7z'' \<Longrightarrow>
     \<not> endswith s ''.zip'' \<and> \<not> endswith s ''.tar'' \<and> \<not> endswith s ''.tar.gz''
     \<and> \<not> endswith s ''.tgz'' \<and> \<not> endswith s ''.rar''"
  by (intro conjI; erule endswith_exclusive) (simp_all add: suffix_Cons)

lemma extract_archive_rar:
  assumes rar: "endswith (lower file_path) ''.rar''"
    and dir: "ensure_dir out_dir w = (None, w1)"
  shows "extract_archive E file_path out_dir password w =
     (case rarfile_can_extract E w1 of
        (True, w2) \<Rightarrow>
          (case rar_extractall E file_path out_dir password w2 of
             (None, w3) \<Rightarrow> (Inr out_dir, w3)
           | (Some e, w3) \<Rightarrow> extract_with_7z E file_path out_dir password w3)
      | (False, w2) \<Rightarrow> extract_with_7z E file_path out_dir password w2)"
  using rar_not_zip [OF rar] rar_not_tar [OF rar] rar dir
  by (simp add: extract_archive_def Let_def)

lemma extract_with_7z_unfold:
  "extract_with_7z E archive_path out_dir password w =
     (case detect_tool E [''7z'', ''7za'', ''7zz''] of
        None \<Rightarrow>
          (Inl (RuntimeError ''7-Zip (7z) not found. Install 7-Zip or add it to PATH.''), w)
      | Some sevenz \<Rightarrow>
          (let cmd = [sevenz, ''x''] @
                     (case password of
                        None \<Rightarrow> []
                      | Some pw \<Rightarrow> if pw \<noteq> [] then [''-p'' @ pw] else []) @
                     [''-y'', ''-o'' @ out_dir, archive_path]
           in case run E cmd None w of
                (Inl e, w4) \<Rightarrow> (Inl e, w4)
              | (Inr rc, w4) \<Rightarrow>
                  if rc = 0 then (Inr out_dir, w4)
                  else (Inl (CalledProcessError rc cmd), w4)))"
proof (cases "detect_tool E [''7z'', ''7za'', ''7zz'']")
  case None
  then show ?thesis by (simp add: extract_with_7z_def)
next
  case (Some sevenz)
  define cmd where "cmd = [sevenz, ''x''] @
                     (case password of
                        None \<Rightarrow> []
                      | Some pw \<Rightarrow> if pw \<noteq> [] then [''-p'' @ pw] else []) @
                     [''-y'', ''-o'' @ out_dir, archive_path]"
  obtain r w4 where r: "run E cmd None w = (r, w4)" by force
  show ?thesis
    unfolding extract_with_7z_def Some Let_def cmd_def [symmetric] option.case
    by (cases r) (simp_all add: run_checked_def r)
qed

text \<open>
  Claim C2, as amended. For a path that ends in \<open>.rar\<close> (in any letter case), once the
  destination directory is made: if \<open>rarfile\<close> is available and extracts without raising,
  the call returns the destination and runs no process. Otherwise (the module is
  missing, or it raised) the call runs the first of \<open>7z\<close>, \<open>7za\<close>, \<open>7zz\<close> found on the
  \<open>PATH\<close> with the arguments \<open>x\<close>, \<open>-p<password>\<close> (only for a non-empty password), \<open>-y\<close>,
  \<open>-o<out_dir>\<close> and the archive path, in the world the first attempt left, and it
  succeeds exactly when that process exits with status \<open>0\<close>; a non-zero status raises
  \<open>CalledProcessError\<close>, and with no 7-Zip on the \<open>PATH\<close> the call raises
  \<open>RuntimeError("7-Zip (7z) not found. ...")\<close>. The exception of the first attempt is
  never part of the result.
\<close>

theorem rar_extraction_fallback:
  assumes rar: "endswith (lower file_path) ''.rar''"
    and dir: "ensure_dir out_dir w = (None, w1)"
    and can: "rarfile_can_extract E w1 = (available, w2)"
    and first: "w3 = (if available then snd (rar_extractall E file_path out_dir password w2) else w2)"
  shows "extract_archive E file_path out_dir password w =
     (if available \<and> fst (rar_extractall E file_path out_dir password w2) = None
      then (Inr out_dir, w3)
      else
        (case detect_tool E [''7z'', ''7za'', ''7zz''] of
           None \<Rightarrow>
             (Inl (RuntimeError ''7-Zip (7z) not found. Install 7-Zip or add it to PATH.''), w3)
         | Some sevenz \<Rightarrow>
             (let cmd = [sevenz, ''x''] @
                        (case password of
                           None \<Rightarrow> []
                         | Some pw \<Rightarrow> if pw \<noteq> [] then [''-p'' @ pw] else []) @
                        [''-y'', ''-o'' @ out_dir, file_path]
              in case run E cmd None w3 of
                   (Inl e, w4) \<Rightarrow> (Inl e, w4)
                 | (Inr rc, w4) \<Rightarrow>
                     if rc = 0 then (Inr out_dir, w4)
                     else (Inl (CalledProcessError rc cmd), w4))))"
proof -
  obtain r wr where r: "rar_extractall E file_path out_dir password w2 = (r, wr)" by force
  show ?thesis
  proof (cases available)
    case False
    with first have "w3 = w2" by simp
    with False can show ?thesis
      unfolding extract_archive_rar [OF rar dir] extract_with_7z_unfold [symmetric]
      by simp
  next
    case True
    with first r have w3: "w3 = wr" by simp
    show ?thesis
    proof (cases r)
      case None
      with True can r w3 show ?thesis
        unfolding extract_archive_rar [OF rar dir] by simp
    next
      case (Some e)
      with True can r w3 show ?thesis
        unfolding extract_archive_rar [OF rar dir] extract_with_7z_unfold [symmetric]
        by simp
    qed
  qed
qed

theorem rar_extraction_fallback_witness:
  "endswith (lower ''/in/A.RAR'') ''.rar''
   \<and> ensure_dir ''/out'' demo_world = (None, demo_world\<lparr>fs := fs demo_world @ [(''/out'', Dir)]\<rparr>)
   \<and> extract_archive (demo_env\<lparr>rarfile_imported := False\<rparr>) ''/in/A.RAR'' ''/out'' (Some ''pw'')
        demo_world
       = (Inr ''/out'', demo_world\<lparr>fs := fs demo_world @ [(''/out'', Dir)]\<rparr>)"
proof -
  have a: "endswith (lower ''/in/A.RAR'') ''.rar''"
    by code_simp
  have b: "ensure_dir ''/out'' demo_world
             = (None, demo_world\<lparr>fs := fs demo_world @ [(''/out'', Dir)]\<rparr>)"
    by code_simp
  have c: "rarfile_can_extract (demo_env\<lparr>rarfile_imported := False\<rparr>)
             (demo_world\<lparr>fs := fs demo_world @ [(''/out'', Dir)]\<rparr>)
           = (False, demo_world\<lparr>fs := fs demo_world @ [(''/out'', Dir)]\<rparr>)"
    by (simp add: rarfile_can_extract_def demo_env_def)
  have d: "detect_tool (demo_env\<lparr>rarfile_imported := False\<rparr>) [''7z'', ''7za'', ''7zz'']
             = Some ''/usr/bin/7z''"
    by (simp add: demo_env_def)
  have e: "run demo_env cmd cwd w = (Inr 0, w)" for cmd cwd w
    by (simp add: demo_env_def)
  from rar_extraction_fallback [OF a b c refl, of "Some ''pw''"] a b
  show ?thesis by (simp add: d e Let_def del: detect_tool.simps)
qed

text \<open>
  Claim C2 as stated fails: with \<open>rarfile\<close> raising and 7-Zip installed, the fallback is
  run, but when 7-Zip exits with status \<open>2\<close> the extraction does not succeed.
\<close>

theorem rar_fallback_can_fail:
  "fst (extract_archive
          (demo_env\<lparr>rar_extractall := (\<lambda>p out pw w. (Some (BackendError ''rarfile''), w)),
                     run := (\<lambda>cmd cwd w. (Inr 2, w))\<rparr>)
          ''/in/a.rar'' ''/out'' None demo_world)
     = Inl (CalledProcessError 2 [''/usr/bin/7z'', ''x'', ''-y'', ''-o/out'', ''/in/a.rar''])"
  by code_simp

subsection \<open>Passwords and the errors of extraction\<close>

lemma extract_archive_other:
  assumes "\<not> endswith (lower file_path) ''.zip''"
    and "\<not> endswith (lower file_path) ''.tar''"
    and "\<not> endswith (lower file_path) ''.tar.gz''"
    and "\<not> endswith (lower file_path) ''.tgz''"
    and "\<not> endswith (lower file_path) ''.rar''"
    and "ensure_dir out_dir w = (None, w1)"
  shows "extract_archive E file_path out_dir password w =
     (case extract_with_7z E file_path out_dir password w1 of
        (Inr d, w2) \<Rightarrow> (Inr d, w2)
      | (Inl e, w2) \<Rightarrow>
          (Inl (ValueError (''Unsupported archive type or missing extractor: '' @ file_path)), w2))"
  using assms by (simp add: extract_archive_def Let_def)

lemma extract_archive_zip:
  assumes "endswith (lower file_path) ''.zip''"
    and "ensure_dir out_dir w = (None, w1)"
  shows "extract_archive E file_path out_dir password w =
     (case zip_open_read E file_path w1 of
        Inl e \<Rightarrow> (Inl e, w1)
      | Inr members \<Rightarrow>
          (case zip_extractall out_dir (if truthy password then password else None) members w1 of
             (Some e, w2) \<Rightarrow> (Inl e, w2)
           | (None, w2) \<Rightarrow> (Inr out_dir, w2)))"
  using assms by (simp add: extract_archive_def Let_def)

lemma extract_with_7z_value:
  "fst (extract_with_7z E file_path out_dir password w) = Inr d \<Longrightarrow> d = out_dir"
  by (auto simp: extract_with_7z_def Let_def split: option.splits prod.splits)

text \<open>
  Claim C4, as amended. The module hands the password to the backend and reports the
  backend's outcome without classifying it. Once the destination directory is made:
  \<open>extract_archive\<close> on a \<open>.7z\<close> path returns the destination when the 7-Zip process
  succeeds and otherwise raises one and the same
  \<open>ValueError("Unsupported archive type or missing extractor: <path>")\<close>, whatever made
  the attempt fail (a wrong password, a corrupt archive, a missing executable);
  \<open>extract_7z_archive\<close> returns the destination or raises the exception of \<open>py7zr\<close>
  unchanged; \<open>extract_archive\<close> on a \<open>.zip\<close> path returns the destination or raises the
  exception of the in-process reader unchanged.
\<close>

theorem password_errors_unclassified:
  assumes dir: "ensure_dir out_dir w = (None, w1)"
  shows "(endswith (lower file_path) ''.7z'' \<longrightarrow>
            fst (extract_archive E file_path out_dir password w) =
              (case fst (extract_with_7z E file_path out_dir password w1) of
                 Inr d \<Rightarrow> Inr out_dir
               | Inl e \<Rightarrow>
                   Inl (ValueError (''Unsupported archive type or missing extractor: '' @ file_path))))
         \<and> extract_7z_archive E file_path out_dir password w =
             (case py7zr_extractall E file_path password out_dir w1 of
                (None, w2) \<Rightarrow> (Inr out_dir, w2)
              | (Some e, w2) \<Rightarrow> (Inl e, w2))
         \<and> (endswith (lower file_path) ''.zip'' \<longrightarrow>
              extract_archive E file_path out_dir password w =
                (case zip_open_read E file_path w1 of
                   Inl e \<Rightarrow> (Inl e, w1)
                 | Inr members \<Rightarrow>
                     (case zip_extractall out_dir (if truthy password then password else None)
                             members w1 of
                        (Some e, w2) \<Rightarrow> (Inl e, w2)
                      | (None, w2) \<Rightarrow> (Inr out_dir, w2))))"
proof (intro conjI impI)
  assume z: "endswith (lower file_path) ''.7z''"
  obtain r w2 where r: "extract_with_7z E file_path out_dir password w1 = (r, w2)" by force
  note ex = sevenz_not_other [OF z]
  have "extract_archive E file_path out_dir password w =
     (case extract_with_7z E file_path out_dir password w1 of
        (Inr d, w2) \<Rightarrow> (Inr d, w2)
      | (Inl e, w2) \<Rightarrow>
          (Inl (ValueError (''Unsupported archive type or missing extractor: '' @ file_path)), w2))"
    using ex dir by (intro extract_archive_other) simp_all
  with r extract_with_7z_value [of E file_path out_dir password w1]
  show "fst (extract_archive E file_path out_dir password w) =
              (case fst (extract_with_7z E file_path out_dir password w1) of
                 Inr d \<Rightarrow> Inr out_dir
               | Inl e \<Rightarrow>
                   Inl (ValueError (''Unsupported archive type or missing extractor: '' @ file_path)))"
    by (cases r) auto
next
  show "extract_7z_archive E file_path out_dir password w =
             (case py7zr_extractall E file_path password out_dir w1 of
                (None, w2) \<Rightarrow> (Inr out_dir, w2)
              | (Some e, w2) \<Rightarrow> (Inl e, w2))"
    using dir by (simp add: extract_7z_archive_def split: prod.splits option.splits)
next
  assume "endswith (lower file_path) ''.zip''"
  then show "extract_archive E file_path out_dir password w =
                (case zip_open_read E file_path w1 of
                   Inl e \<Rightarrow> (Inl e, w1)
                 | Inr members \<Rightarrow>
                     (case zip_extractall out_dir (if truthy password then password else None)
                             members w1 of
                        (Some e, w2) \<Rightarrow> (Inl e, w2)
                      | (None, w2) \<Rightarrow> (Inr out_dir, w2)))"
    using dir by (rule extract_archive_zip)
qed

theorem password_errors_unclassified_witness:
  "ensure_dir ''/out'' demo_world = (None, demo_world\<lparr>fs := fs demo_world @ [(''/out'', Dir)]\<rparr>)
   \<and> endswith (lower ''/in/a.7z'') ''.7z''
   \<and> fst (extract_archive (demo_env\<lparr>which := (\<lambda>name. None)\<rparr>) ''/in/a.7z'' ''/out''
             (Some ''right'') demo_world)
       = Inl (ValueError ''Unsupported archive type or missing extractor: /in/a.7z'')"
proof -
  have a: "endswith (lower ''/in/a.7z'') ''.7z''"
    by code_simp
  have b: "ensure_dir ''/out'' demo_world
             = (None, demo_world\<lparr>fs := fs demo_world @ [(''/out'', Dir)]\<rparr>)"
    by code_simp
  have c: "fst (extract_with_7z (demo_env\<lparr>which := (\<lambda>name. None)\<rparr>) ''/in/a.7z'' ''/out''
                  (Some ''right'') (demo_world\<lparr>fs := fs demo_world @ [(''/out'', Dir)]\<rparr>))
           = Inl (RuntimeError ''7-Zip (7z) not found. Install 7-Zip or add it to PATH.'')"
    by (simp add: extract_with_7z_def)
  from password_errors_unclassified [OF b, of "''/in/a.7z''"
      "demo_env\<lparr>which := (\<lambda>name. None)\<rparr>" "Some ''right''"] a
  have "fst (extract_archive (demo_env\<lparr>which := (\<lambda>name. None)\<rparr>) ''/in/a.7z'' ''/out''
             (Some ''right'') demo_world) =
          (case fst (extract_with_7z (demo_env\<lparr>which := (\<lambda>name. None)\<rparr>) ''/in/a.7z'' ''/out''
                  (Some ''right'') (demo_world\<lparr>fs := fs demo_world @ [(''/out'', Dir)]\<rparr>)) of
                 Inr d \<Rightarrow> Inr ''/out''
               | Inl e \<Rightarrow>
                   Inl (ValueError (''Unsupported archive type or missing extractor: '' @ ''/in/a.7z'')))"
    by blast
  with a b show ?thesis unfolding c by simp
qed

text \<open>
  Claim C4 as stated fails: a \<open>.7z\<close> archive extracted with a wrong password (7-Zip
  exits with status \<open>2\<close>) raises the same exception as an extraction with no 7-Zip
  installed at all; no wrong-password error kind is raised.
\<close>

theorem wrong_password_not_distinguished:
  "fst (extract_archive (demo_env\<lparr>run := (\<lambda>cmd cwd w. (Inr 2, w))\<rparr>) ''/in/a.7z'' ''/out''
          (Some ''wrong'') demo_world)
     = Inl (ValueError ''Unsupported archive type or missing extractor: /in/a.7z'')
   \<and> fst (extract_archive (demo_env\<lparr>which := (\<lambda>name. None)\<rparr>) ''/in/a.7z'' ''/out''
          (Some ''right'') demo_world)
     = Inl (ValueError ''Unsupported archive type or missing extractor: /in/a.7z'')"
  by code_simp

subsection \<open>The compression level\<close>

text \<open>
  Claim C5, as amended. The compression level is not clamped or mapped anywhere:
  \<open>create_7z_archive\<close> hands the level it is given to \<open>py7zr\<close> as the LZMA2 preset,
  \<open>create_password_protected_zip\<close> hands it to \<open>pyminizip.compress_multiple\<close>, both
  unchanged, and whether compression succeeds is what the backend answers for that
  level; the creation of a ZIP without a password does not depend on the level at all.
\<close>

theorem compression_level_passed_verbatim:
  "create_7z_archive E src_dir out_path password level w =
     (case ensure_dir (path_parent out_path) w of
        (Some e, w1) \<Rightarrow> (Inl e, w1)
      | (None, w1) \<Rightarrow>
          (case py7zr_writeall E out_path password level src_dir (os_path_basename src_dir) w1 of
             (Some e, w2) \<Rightarrow> (Inl e, w2)
           | (None, w2) \<Rightarrow> (Inr out_path, w2)))
   \<and> (pyminizip_importable E \<longrightarrow>
        create_password_protected_zip E src_dir out_path pw level w =
          (case ensure_dir (path_parent out_path) w of
             (Some e, w1) \<Rightarrow> (Inl e, w1)
           | (None, w1) \<Rightarrow>
               (case pyminizip_compress_multiple E (map fst (walk_files src_dir w1))
                       (map (\<lambda>full. relpath full src_dir) (map fst (walk_files src_dir w1)))
                       out_path pw level w1 of
                  (Some e, w2) \<Rightarrow> (Inl e, w2)
                | (None, w2) \<Rightarrow> (Inr out_path, w2))))
   \<and> (\<not> truthy password \<longrightarrow>
        create_output E ''.zip'' src_dir out_path password level w =
          create_output E ''.zip'' src_dir out_path password level' w)"
proof (intro conjI impI)
  show "create_7z_archive E src_dir out_path password level w =
     (case ensure_dir (path_parent out_path) w of
        (Some e, w1) \<Rightarrow> (Inl e, w1)
      | (None, w1) \<Rightarrow>
          (case py7zr_writeall E out_path password level src_dir (os_path_basename src_dir) w1 of
             (Some e, w2) \<Rightarrow> (Inl e, w2)
           | (None, w2) \<Rightarrow> (Inr out_path, w2)))"
    by (simp add: create_7z_archive_def)
next
  assume "pyminizip_importable E"
  then show "create_password_protected_zip E src_dir out_path pw level w =
          (case ensure_dir (path_parent out_path) w of
             (Some e, w1) \<Rightarrow> (Inl e, w1)
           | (None, w1) \<Rightarrow>
               (case pyminizip_compress_multiple E (map fst (walk_files src_dir w1))
                       (map (\<lambda>full. relpath full src_dir) (map fst (walk_files src_dir w1)))
                       out_path pw level w1 of
                  (Some e, w2) \<Rightarrow> (Inl e, w2)
                | (None, w2) \<Rightarrow> (Inr out_path, w2)))"
    by (simp add: create_password_protected_zip_def Let_def split: prod.splits option.splits)
next
  assume "\<not> truthy password"
  then show "create_output E ''.zip'' src_dir out_path password level w =
          create_output E ''.zip'' src_dir out_path password level' w"
    by (simp add: create_output_def truthy_def split: option.splits)
qed

theorem compression_level_passed_verbatim_witness:
  "pyminizip_importable demo_env \<and> \<not> truthy None
   \<and> ensure_dir (path_parent ''/out/b.7z'') demo_world
       = (None, demo_world\<lparr>fs := fs demo_world @ [(''/out'', Dir)]\<rparr>)
   \<and> create_7z_archive
        (demo_env\<lparr>py7zr_writeall :=
           (\<lambda>out pw preset src arc w.
              if 0 \<le> preset \<and> preset \<le> 9 then (None, w)
              else (Some (BackendError ''Invalid compression preset''), w))\<rparr>)
        ''/src'' ''/out/b.7z'' None 42 demo_world
       = (Inl (BackendError ''Invalid compression preset''),
          demo_world\<lparr>fs := fs demo_world @ [(''/out'', Dir)]\<rparr>)"
proof -
  have a: "pyminizip_importable demo_env" by (simp add: demo_env_def)
  have b: "\<not> truthy None" by (simp add: truthy_def)
  have c: "ensure_dir (path_parent ''/out/b.7z'') demo_world
       = (None, demo_world\<lparr>fs := fs demo_world @ [(''/out'', Dir)]\<rparr>)"
    by code_simp
  from compression_level_passed_verbatim [of
      "demo_env\<lparr>py7zr_writeall :=
           (\<lambda>out pw preset src arc w.
              if 0 \<le> preset \<and> preset \<le> 9 then (None, w)
              else (Some (BackendError ''Invalid compression preset''), w))\<rparr>"
      "''/src''" "''/out/b.7z''" None 42 demo_world]
  have "create_7z_archive
        (demo_env\<lparr>py7zr_writeall :=
           (\<lambda>out pw preset src arc w.
              if 0 \<le> preset \<and> preset \<le> 9 then (None, w)
              else (Some (BackendError ''Invalid compression preset''), w))\<rparr>)
        ''/src'' ''/out/b.7z'' None 42 demo_world
       = (Inl (BackendError ''Invalid compression preset''),
          demo_world\<lparr>fs := fs demo_world @ [(''/out'', Dir)]\<rparr>)"
    by (simp add: c)
  with a b c show ?thesis by simp
qed

text \<open>
  Claim C5 as stated fails: with a 7z writer that accepts the presets \<open>0\<close> to \<open>9\<close> only,
  as LZMA2 does, the level \<open>10\<close> reaches the writer as it is and the conversion raises.
\<close>

theorem level_above_maximum_rejected:
  "fst (convert_archive_format
          (demo_env\<lparr>py7zr_writeall :=
             (\<lambda>out pw preset src arc w.
                if 0 \<le> preset \<and> preset \<le> 9 then (None, w)
                else (Some (BackendError ''Invalid compression preset''), w))\<rparr>)
          ''/in/a.zip'' ''/out/b.7z'' None 10 demo_world)
     = Inl (BackendError ''Invalid compression preset'')"
  by code_simp

subsection \<open>Password-protected ZIP archives\<close>

lemma create_password_zip_alternative_unfold:
  "create_password_zip_alternative E src_dir out_path pw w =
     (case detect_tool E [''7z'', ''7za'', ''7zz''] of
        None \<Rightarrow> (Inl (RuntimeError ''7-Zip required for password-protected archives''), w)
      | Some sevenz \<Rightarrow>
          (case run_checked E [sevenz, ''a'', ''-tzip'', ''-p'' @ pw, out_path, src_dir @ ''/*'']
                  None w of
             (Some e, w1) \<Rightarrow> (Inl e, w1)
           | (None, w1) \<Rightarrow> (Inr out_path, w1)))"
  by (simp add: create_password_zip_alternative_def)

text \<open>
  Claim C8, as amended. With a non-empty password a ZIP output is made by
  \<open>create_password_protected_zip\<close>, and without one by \<open>_zip_directory\<close>. The first
  needs \<open>pyminizip\<close>: when that module cannot be imported it raises
  \<open>ModuleNotFoundError\<close> and changes nothing, whatever tools are installed; it never
  runs 7-Zip. The 7-Zip path is the separate function \<open>create_password_zip_alternative\<close>,
  which raises \<open>RuntimeError("7-Zip required for password-protected archives")\<close> when
  none of \<open>7z\<close>, \<open>7za\<close>, \<open>7zz\<close> is on the \<open>PATH\<close>, and otherwise runs the one found with
  \<open>a -tzip -p<password> <out> <src>/*\<close>.
\<close>

theorem password_zip_backends:
  "(\<forall>pw. password = Some pw \<and> pw \<noteq> [] \<longrightarrow>
      create_output E ''.zip'' src_dir out_path password level w =
        create_password_protected_zip E src_dir out_path pw level w)
   \<and> (\<not> truthy password \<longrightarrow>
        create_output E ''.zip'' src_dir out_path password level w =
          zip_directory E src_dir out_path True w)
   \<and> (\<not> pyminizip_importable E \<longrightarrow>
        create_password_protected_zip E src_dir out_path secret level w =
          (Inl (ModuleNotFoundError ''pyminizip''), w))
   \<and> (detect_tool E [''7z'', ''7za'', ''7zz''] = None \<longrightarrow>
        create_password_zip_alternative E src_dir out_path secret w =
          (Inl (RuntimeError ''7-Zip required for password-protected archives''), w))
   \<and> (\<forall>sevenz. detect_tool E [''7z'', ''7za'', ''7zz''] = Some sevenz \<longrightarrow>
        create_password_zip_alternative E src_dir out_path secret w =
          (case run_checked E
                  [sevenz, ''a'', ''-tzip'', ''-p'' @ secret, out_path, src_dir @ ''/*''] None w of
             (Some e, w1) \<Rightarrow> (Inl e, w1)
           | (None, w1) \<Rightarrow> (Inr out_path, w1)))"
  unfolding create_password_zip_alternative_unfold
  by (auto simp: create_output_def create_password_protected_zip_def truthy_def
      split: option.splits)

theorem password_zip_backends_witness:
  "\<not> pyminizip_importable (demo_env\<lparr>pyminizip_importable := False\<rparr>)
   \<and> detect_tool (demo_env\<lparr>pyminizip_importable := False\<rparr>) [''7z'', ''7za'', ''7zz'']
       = Some ''/usr/bin/7z''
   \<and> create_output (demo_env\<lparr>pyminizip_importable := False\<rparr>) ''.zip'' ''/src'' ''/out/b.zip''
        (Some ''secret'') 5 demo_world
       = (Inl (ModuleNotFoundError ''pyminizip''), demo_world)
   \<and> create_password_zip_alternative (demo_env\<lparr>pyminizip_importable := False\<rparr>) ''/src''
        ''/out/b.zip'' ''secret'' demo_world
       = (Inr ''/out/b.zip'', demo_world)"
proof -
  have a: "\<not> pyminizip_importable (demo_env\<lparr>pyminizip_importable := False\<rparr>)" by simp
  have b: "detect_tool (demo_env\<lparr>pyminizip_importable := False\<rparr>) [''7z'', ''7za'', ''7zz'']
       = Some ''/usr/bin/7z''"
    by (simp add: demo_env_def)
  have c: "run_checked (demo_env\<lparr>pyminizip_importable := False\<rparr>) cmd cwd w = (None, w)"
    for cmd cwd w
    by (simp add: run_checked_def demo_env_def)
  note t = password_zip_backends [of "Some ''secret''"
      "demo_env\<lparr>pyminizip_importable := False\<rparr>" "''/src''" "''/out/b.zip''" 5 demo_world
      "''secret''"]
  from t a have d: "create_output (demo_env\<lparr>pyminizip_importable := False\<rparr>) ''.zip'' ''/src''
        ''/out/b.zip'' (Some ''secret'') 5 demo_world
       = (Inl (ModuleNotFoundError ''pyminizip''), demo_world)"
    by simp
  from t b have e: "create_password_zip_alternative (demo_env\<lparr>pyminizip_importable := False\<rparr>)
        ''/src'' ''/out/b.zip'' ''secret'' demo_world
       = (Inr ''/out/b.zip'', demo_world)"
    by (simp add: c del: detect_tool.simps)
  from a b d e show ?thesis by blast
qed

text \<open>
  Claim C8 as stated fails: without \<open>pyminizip\<close> the conversion to a password-protected
  ZIP raises although a 7-Zip executable is installed.
\<close>

theorem no_fallback_to_7zip:
  "fst (convert_archive_format (demo_env\<lparr>pyminizip_importable := False\<rparr>) ''/in/a.zip''
          ''/out/b.zip'' (Some ''secret'') 5 demo_world)
     = Inl (ModuleNotFoundError ''pyminizip'')
   \<and> detect_tool (demo_env\<lparr>pyminizip_importable := False\<rparr>) [''7z'', ''7za'', ''7zz'']
       = Some ''/usr/bin/7z''"
  by code_simp

subsection \<open>Analysis\<close>

lemma calculate_ratio_fields [simp]:
  "info_format (calculate_ratio E i) = info_format i"
  "info_size (calculate_ratio E i) = info_size i"
  "info_files (calculate_ratio E i) = info_files i"
  "info_total_uncompressed (calculate_ratio E i) = info_total_uncompressed i"
  "info_error (calculate_ratio E i) = info_error i"
  by (simp_all add: calculate_ratio_def)

lemma getsize_exists: "os_path_exists w p \<Longrightarrow> \<exists>sz. getsize E w p = Inr sz"
  by (auto simp: os_path_exists_def getsize_def split: option.splits node.splits)

lemma rarfile_can_extract_fs: "fs (snd (rarfile_can_extract E w)) = fs w"
  by (simp add: rarfile_can_extract_def Let_def split: option.splits)

text \<open>The report in terms of what the readers answered.\<close>

lemma analyze_zip:
  assumes "getsize E w p = Inr sz" and "lower (path_suffix p) = ''.zip''"
  shows "analyze_archive_info E p w =
     (case zip_open_read E p w of
        Inl e \<Rightarrow>
          (Inr \<lparr>info_format = ''.zip'', info_size = sz, info_files = [],
                info_compression_ratio = PyInt 0, info_total_uncompressed = 0,
                info_error = Some e\<rparr>, w)
      | Inr members \<Rightarrow>
          (Inr (calculate_ratio E
                 \<lparr>info_format = ''.zip'', info_size = sz, info_files = map fst members,
                  info_compression_ratio = PyInt 0,
                  info_total_uncompressed =
                    sum_list (map (\<lambda>(n, c, enc). getsize_file E c) members),
                  info_error = None\<rparr>), w))"
  using assms by (simp add: analyze_archive_info_def Let_def split: sum.splits)

lemma analyze_7z:
  assumes "getsize E w p = Inr sz" and "lower (path_suffix p) = ''.7z''"
  shows "analyze_archive_info E p w =
     (case py7zr_getnames E p w of
        Inl e \<Rightarrow>
          (Inr \<lparr>info_format = ''.7z'', info_size = sz, info_files = [],
                info_compression_ratio = PyInt 0, info_total_uncompressed = 0,
                info_error = Some e\<rparr>, w)
      | Inr names \<Rightarrow>
          (case py7zr_list E p w of
             Inl e \<Rightarrow>
               (Inr \<lparr>info_format = ''.7z'', info_size = sz, info_files = names,
                     info_compression_ratio = PyInt 0, info_total_uncompressed = 0,
                     info_error = Some e\<rparr>, w)
           | Inr entries \<Rightarrow>
               (Inr (calculate_ratio E
                      \<lparr>info_format = ''.7z'', info_size = sz, info_files = names,
                       info_compression_ratio = PyInt 0,
                       info_total_uncompressed =
                         fold (\<lambda>u total. total + (case u of None \<Rightarrow> 0 | Some n \<Rightarrow> n)) entries 0,
                       info_error = None\<rparr>), w)))"
  using assms by (simp add: analyze_archive_info_def Let_def split: sum.splits)

lemma analyze_rar:
  assumes "getsize E w p = Inr sz" and "lower (path_suffix p) = ''.rar''"
    and "rarfile_can_extract E w = (available, w1)"
  shows "analyze_archive_info E p w =
     (if \<not> available then
        (Inr \<lparr>info_format = ''.rar'', info_size = sz, info_files = [],
              info_compression_ratio = PyInt 0, info_total_uncompressed = 0,
              info_error = None\<rparr>, w1)
      else
        (case rar_namelist E p w1 of
           Inl e \<Rightarrow>
             (Inr \<lparr>info_format = ''.rar'', info_size = sz, info_files = [],
                   info_compression_ratio = PyInt 0, info_total_uncompressed = 0,
                   info_error = Some e\<rparr>, w1)
         | Inr names \<Rightarrow>
             (case rar_infolist E p w1 of
                Inl e \<Rightarrow>
                  (Inr \<lparr>info_format = ''.rar'', info_size = sz, info_files = names,
                        info_compression_ratio = PyInt 0, info_total_uncompressed = 0,
                        info_error = Some e\<rparr>, w1)
              | Inr sizes \<Rightarrow>
                  (Inr (calculate_ratio E
                         \<lparr>info_format = ''.rar'', info_size = sz, info_files = names,
                          info_compression_ratio = PyInt 0,
                          info_total_uncompressed = sum_list sizes,
                          info_error = None\<rparr>), w1))))"
  using assms
  by (simp add: analyze_archive_info_def Let_def calculate_ratio_def split: sum.splits)

lemma analyze_other:
  assumes "getsize E w p = Inr sz" and "lower (path_suffix p) \<noteq> ''.zip''"
    and "lower (path_suffix p) \<noteq> ''.7z''" and "lower (path_suffix p) \<noteq> ''.rar''"
  shows "analyze_archive_info E p w =
     (Inr \<lparr>info_format = lower (path_suffix p), info_size = sz, info_files = [],
           info_compression_ratio = PyInt 0, info_total_uncompressed = 0,
           info_error = None\<rparr>, w)"
  using assms by (simp add: analyze_archive_info_def Let_def calculate_ratio_def)

lemma analyze_missing:
  "getsize E w p = Inl e \<Longrightarrow> analyze_archive_info E p w = (Inl e, w)"
  by (simp add: analyze_archive_info_def)


lemma fold_uncompressed:
  "fold (\<lambda>u total. total + (case u of None \<Rightarrow> 0 | Some n \<Rightarrow> n)) entries a
     = a + sum_list (map (\<lambda>u. case u of None \<Rightarrow> 0 | Some (n :: nat) \<Rightarrow> n) entries)"
  by (induction entries arbitrary: a) simp_all

lemma calculate_ratio_value:
  "info_compression_ratio i = PyInt 0 \<Longrightarrow>
     info_compression_ratio (calculate_ratio E i) =
       (if 0 < info_total_uncompressed i
        then PyFloat (float_mul E
                        (float_rsub E 1 (float_div E (info_size i) (info_total_uncompressed i)))
                        100)
        else PyInt 0)"
  by (simp add: calculate_ratio_def)

text \<open>
  Claim C7. For an archive that exists, the analysis returns a report whose size is the
  size of the archive on disk, as \<open>os.path.getsize\<close> answers it, and whose total
  uncompressed size is the sum of the member sizes the reader of the format answers:
  the members of the ZIP archive, the entries of \<open>py7zr\<close> (an entry without a size
  counts as \<open>0\<close>), the entries of \<open>rarfile\<close> when it is available. The total is \<open>0\<close>
  when the reader raised, when \<open>rarfile\<close> is not available and when the suffix has no
  reader. The compression ratio of the report is \<open>(1 - size / total) * 100\<close>, computed
  with the float operations of the environment, if the total is positive, and the
  integer \<open>0\<close> otherwise.
\<close>

theorem compression_ratio_formula:
  assumes sz: "getsize E w p = Inr sz"
  shows "\<exists>i w1 total. analyze_archive_info E p w = (Inr i, w1)
     \<and> info_size i = sz \<and> info_total_uncompressed i = total
     \<and> info_compression_ratio i =
          (if 0 < total
           then PyFloat (float_mul E (float_rsub E 1 (float_div E sz total)) 100)
           else PyInt 0)
     \<and> (lower (path_suffix p) = ''.zip'' \<longrightarrow>
          (case zip_open_read E p w of
             Inl e \<Rightarrow> total = 0
           | Inr members \<Rightarrow>
               total = sum_list (map (\<lambda>(n, c, enc). getsize_file E c) members)))
     \<and> (lower (path_suffix p) = ''.7z'' \<longrightarrow>
          (case py7zr_getnames E p w of
             Inl e \<Rightarrow> total = 0
           | Inr names \<Rightarrow>
               (case py7zr_list E p w of
                  Inl e \<Rightarrow> total = 0
                | Inr entries \<Rightarrow>
                    total = sum_list (map (\<lambda>u. case u of None \<Rightarrow> 0 | Some n \<Rightarrow> n) entries))))
     \<and> (lower (path_suffix p) = ''.rar'' \<longrightarrow>
          (if fst (rarfile_can_extract E w) then
             (case rar_namelist E p w1 of
                Inl e \<Rightarrow> total = 0
              | Inr names \<Rightarrow>
                  (case rar_infolist E p w1 of
                     Inl e \<Rightarrow> total = 0
                   | Inr sizes \<Rightarrow> total = sum_list sizes))
           else total = 0))
     \<and> (lower (path_suffix p) \<notin> {''.zip'', ''.7z'', ''.rar''} \<longrightarrow> total = 0)"
proof -
  consider "lower (path_suffix p) = ''.zip''" | "lower (path_suffix p) = ''.7z''"
    | "lower (path_suffix p) = ''.rar''"
    | "lower (path_suffix p) \<noteq> ''.zip''" "lower (path_suffix p) \<noteq> ''.7z''"
      "lower (path_suffix p) \<noteq> ''.rar''"
    by blast
  then show ?thesis
  proof cases
    case 1
    show ?thesis
      unfolding analyze_zip [OF sz 1] using 1
      by (cases "zip_open_read E p w")
        (simp_all add: calculate_ratio_value del: sum_list_eq_0_iff)
  next
    case 2
    show ?thesis
      unfolding analyze_7z [OF sz 2] using 2
      by (cases "py7zr_getnames E p w"; cases "py7zr_list E p w")
        (simp_all add: calculate_ratio_value fold_uncompressed del: sum_list_eq_0_iff)
  next
    case 3
    obtain a w2 where c: "rarfile_can_extract E w = (a, w2)" by force
    show ?thesis
      unfolding analyze_rar [OF sz 3 c] using 3 c
      by (cases a; cases "rar_namelist E p w2"; cases "rar_infolist E p w2")
        (simp_all add: calculate_ratio_value del: sum_list_eq_0_iff)
  next
    case 4
    show ?thesis
      unfolding analyze_other [OF sz 4] using 4 by simp
  qed
qed

theorem compression_ratio_formula_witness:
  "getsize demo_env demo_world ''/in/a.zip'' = Inr 110
   \<and> analyze_archive_info demo_env ''/in/a.zip'' demo_world
     = (Inr \<lparr>info_format = ''.zip'', info_size = 110, info_files = [''a.txt''],
             info_compression_ratio = PyFloat ((1 - 110 / 2) * 100),
             info_total_uncompressed = 2, info_error = None\<rparr>, demo_world)
   \<and> getsize (demo_env\<lparr>py7zr_list := (\<lambda>p w. Inr [Some 600, None, Some 400])\<rparr>)
       demo_world ''/in/a.7z'' = Inr 2
   \<and> analyze_archive_info (demo_env\<lparr>py7zr_list := (\<lambda>p w. Inr [Some 600, None, Some 400])\<rparr>)
       ''/in/a.7z'' demo_world
     = (Inr \<lparr>info_format = ''.7z'', info_size = 2, info_files = [],
             info_compression_ratio = PyFloat ((1 - 2 / 1000) * 100),
             info_total_uncompressed = 1000, info_error = None\<rparr>, demo_world)
   \<and> getsize demo_env demo_world ''/in/a.rar'' = Inr 4
   \<and> analyze_archive_info demo_env ''/in/a.rar'' demo_world
     = (Inr \<lparr>info_format = ''.rar'', info_size = 4, info_files = [],
             info_compression_ratio = PyInt 0, info_total_uncompressed = 0,
             info_error = None\<rparr>, demo_world)"
proof -
  have g1: "getsize demo_env demo_world ''/in/a.zip'' = Inr 110"
    by code_simp
  have a1: "analyze_archive_info demo_env ''/in/a.zip'' demo_world
     = (Inr \<lparr>info_format = ''.zip'', info_size = 110, info_files = [''a.txt''],
             info_compression_ratio = PyFloat ((1 - 110 / 2) * 100),
             info_total_uncompressed = 2, info_error = None\<rparr>, demo_world)"
    by code_simp
  have g2: "getsize (demo_env\<lparr>py7zr_list := (\<lambda>p w. Inr [Some 600, None, Some 400])\<rparr>)
       demo_world ''/in/a.7z'' = Inr 2"
    by code_simp
  have a2: "analyze_archive_info (demo_env\<lparr>py7zr_list := (\<lambda>p w. Inr [Some 600, None, Some 400])\<rparr>)
       ''/in/a.7z'' demo_world
     = (Inr \<lparr>info_format = ''.7z'', info_size = 2, info_files = [],
             info_compression_ratio = PyFloat ((1 - 2 / 1000) * 100),
             info_total_uncompressed = 1000, info_error = None\<rparr>, demo_world)"
    by code_simp
  have g3: "getsize demo_env demo_world ''/in/a.rar'' = Inr 4"
    by code_simp
  have a3: "analyze_archive_info demo_env ''/in/a.rar'' demo_world
     = (Inr \<lparr>info_format = ''.rar'', info_size = 4, info_files = [],
             info_compression_ratio = PyInt 0, info_total_uncompressed = 0,
             info_error = None\<rparr>, demo_world)"
    by code_simp
  from compression_ratio_formula [OF g1] compression_ratio_formula [OF g2]
    compression_ratio_formula [OF g3] g1 a1 g2 a2 g3 a3
  show ?thesis by blast
qed


text \<open>
  Claim C6. For a path that exists, \<open>analyze_archive_info\<close> returns a report and does not
  raise, and leaves the file system as it was. The report's format is the lower-cased
  suffix of the path and its size is what \<open>os.path.getsize\<close> answers. When the reader
  of the format raises while opening or listing the archive, the exception is stored
  in the report, together with the member names if those had been read already.
\<close>

theorem analysis_never_raises:
  assumes "os_path_exists w p"
  shows "\<exists>i w1. analyze_archive_info E p w = (Inr i, w1) \<and> fs w1 = fs w
           \<and> info_format i = lower (path_suffix p)
           \<and> getsize E w p = Inr (info_size i)
           \<and> (info_format i = ''.zip'' \<longrightarrow>
                (\<forall>e. zip_open_read E p w = Inl e \<longrightarrow> info_error i = Some e))
           \<and> (info_format i = ''.7z'' \<longrightarrow>
                (\<forall>e. py7zr_getnames E p w = Inl e \<longrightarrow> info_error i = Some e)
                \<and> (\<forall>names e. py7zr_getnames E p w = Inr names \<and> py7zr_list E p w = Inl e \<longrightarrow>
                      info_error i = Some e \<and> info_files i = names))
           \<and> (info_format i = ''.rar'' \<and> fst (rarfile_can_extract E w) \<longrightarrow>
                (\<forall>e. rar_namelist E p w1 = Inl e \<longrightarrow> info_error i = Some e)
                \<and> (\<forall>names e. rar_namelist E p w1 = Inr names \<and> rar_infolist E p w1 = Inl e \<longrightarrow>
                      info_error i = Some e \<and> info_files i = names))"
proof -
  from getsize_exists [OF assms] obtain sz where sz: "getsize E w p = Inr sz" by blast
  consider "lower (path_suffix p) = ''.zip''" | "lower (path_suffix p) = ''.7z''"
    | "lower (path_suffix p) = ''.rar''"
    | "lower (path_suffix p) \<noteq> ''.zip''" "lower (path_suffix p) \<noteq> ''.7z''"
      "lower (path_suffix p) \<noteq> ''.rar''"
    by blast
  then show ?thesis
  proof cases
    case 1
    show ?thesis
      unfolding analyze_zip [OF sz 1] using sz 1
      by (cases "zip_open_read E p w") simp_all
  next
    case 2
    show ?thesis
      unfolding analyze_7z [OF sz 2] using sz 2
      by (cases "py7zr_getnames E p w"; cases "py7zr_list E p w") simp_all
  next
    case 3
    obtain a w2 where c: "rarfile_can_extract E w = (a, w2)" by force
    from rarfile_can_extract_fs [of E w] c have f: "fs w2 = fs w" by simp
    show ?thesis
      unfolding analyze_rar [OF sz 3 c] using sz 3 c f
      by (cases a; cases "rar_namelist E p w2"; cases "rar_infolist E p w2") simp_all
  next
    case 4
    show ?thesis
      unfolding analyze_other [OF sz 4] using sz 4 by simp
  qed
qed

theorem analysis_never_raises_witness:
  "os_path_exists demo_world ''/in/a.tar''
   \<and> analyze_archive_info demo_env ''/in/a.tar'' demo_world
       = (Inr \<lparr>info_format = ''.tar'', info_size = 5, info_files = [],
               info_compression_ratio = PyInt 0, info_total_uncompressed = 0,
               info_error = None\<rparr>, demo_world)
   \<and> os_path_exists demo_world ''/in/a.7z''
   \<and> analyze_archive_info
        (demo_env\<lparr>py7zr_getnames := (\<lambda>p w. Inl (BackendError ''not a 7z file''))\<rparr>)
        ''/in/a.7z'' demo_world
       = (Inr \<lparr>info_format = ''.7z'', info_size = 2, info_files = [],
               info_compression_ratio = PyInt 0, info_total_uncompressed = 0,
               info_error = Some (BackendError ''not a 7z file'')\<rparr>, demo_world)"
proof -
  have a: "os_path_exists demo_world ''/in/a.tar''"
    by (simp add: os_path_exists_def demo_world_def)
  have b: "os_path_exists demo_world ''/in/a.7z''"
    by (simp add: os_path_exists_def demo_world_def)
  have c: "analyze_archive_info demo_env ''/in/a.tar'' demo_world
       = (Inr \<lparr>info_format = ''.tar'', info_size = 5, info_files = [],
               info_compression_ratio = PyInt 0, info_total_uncompressed = 0,
               info_error = None\<rparr>, demo_world)"
    by code_simp
  have d: "analyze_archive_info
        (demo_env\<lparr>py7zr_getnames := (\<lambda>p w. Inl (BackendError ''not a 7z file''))\<rparr>)
        ''/in/a.7z'' demo_world
       = (Inr \<lparr>info_format = ''.7z'', info_size = 2, info_files = [],
               info_compression_ratio = PyInt 0, info_total_uncompressed = 0,
               info_error = Some (BackendError ''not a 7z file'')\<rparr>, demo_world)"
    by code_simp
  from analysis_never_raises [OF a, of demo_env] analysis_never_raises [OF b,
      of "demo_env\<lparr>py7zr_getnames := (\<lambda>p w. Inl (BackendError ''not a 7z file''))\<rparr>"] a b c d
  show ?thesis by blast
qed

subsection \<open>Conversion to RAR\<close>

lemma grows_within_refl: "grows_within out w w"
  by (simp add: grows_within_def)

lemma grows_within_same_fs: "fs w' = fs w \<Longrightarrow> grows_within out w w'"
  by (simp add: grows_within_def os_path_exists_def)

lemma grows_within_trans:
  "grows_within out w w1 \<Longrightarrow> grows_within out w1 w2 \<Longrightarrow> grows_within out w w2"
  by (auto simp: grows_within_def)

lemma cuts_prefix: "q \<in> set (cuts pre xs) \<Longrightarrow> prefix q (pre @ xs)"
proof (induction xs arbitrary: pre)
  case Nil
  then show ?case by simp
next
  case (Cons x xs)
  from Cons.prems consider "q = pre" | "q \<in> set (cuts (pre @ [x]) xs)"
    by (auto split: if_splits)
  then show ?case
  proof cases
    case 1
    then show ?thesis by simp
  next
    case 2
    from Cons.IH [OF 2] show ?thesis by simp
  qed
qed

lemma ancestors_prefix: "q \<in> set (ancestors p) \<Longrightarrow> prefix q p"
  using cuts_prefix [of q "[]" p] by (simp add: ancestors_def)

lemma exists_mkdir_one:
  "os_path_exists (mkdir_one q w) p \<longleftrightarrow> os_path_exists w p \<or> p = q"
  by (auto simp: mkdir_one_def os_path_exists_def map_add_def split: option.splits)

lemma exists_fold_mkdir:
  "os_path_exists (fold mkdir_one qs w) p \<longleftrightarrow> os_path_exists w p \<or> p \<in> set qs"
  by (induction qs arbitrary: w) (auto simp: exists_mkdir_one)

lemma makedirs_creates:
  "os_path_exists (snd (makedirs x w)) p \<Longrightarrow> os_path_exists w p \<or> prefix p x"
  by (auto simp: makedirs_def exists_fold_mkdir exists_mkdir_one dest: ancestors_prefix
      split: if_splits)

lemma write_file_creates:
  "os_path_exists (snd (write_file t c w)) p \<Longrightarrow> os_path_exists w p \<or> p = t"
  by (auto simp: write_file_def os_path_exists_def update_conv' split: if_splits)

lemma prefix_confined:
  "prefix p (out @ ''/'' @ rest) \<Longrightarrow> confined_to out p"
  by (auto simp: confined_to_def prefix_append prefix_Cons)

lemma rstrip_slash_prefix: "prefix (rstrip_slash s) s"
proof -
  have "s = rev (dropWhile (\<lambda>c. c = CHR ''/'') (rev s)) @ rev (takeWhile (\<lambda>c. c = CHR ''/'') (rev s))"
    by (metis rev_append rev_rev_ident takeWhile_dropWhile_id)
  then show ?thesis
    unfolding rstrip_slash_def by (metis prefixI)
qed

lemma dirname_prefix: "prefix (os_path_dirname t) t"
  using rstrip_slash_prefix [of "take (Suc i) t" for i]
  by (auto simp: os_path_dirname_def Let_def take_is_prefix split: option.splits
      intro: prefix_order.trans [OF _ take_is_prefix])


lemma split_sep_nonempty: "split_sep c xs \<noteq> []"
  by (induction xs) (auto split: list.splits)

lemma split_sep_no_sep: "s \<in> set (split_sep c xs) \<Longrightarrow> c \<notin> set s"
proof (induction xs arbitrary: s)
  case Nil
  then show ?case by simp
next
  case (Cons x xs)
  show ?case
  proof (cases "x = c")
    case True
    with Cons show ?thesis by auto
  next
    case False
    obtain part parts where sp: "split_sep c xs = part # parts"
      using split_sep_nonempty [of c xs] by (cases "split_sep c xs") auto
    with Cons.prems False have "s = x # part \<or> s \<in> set parts" by simp
    with Cons.IH [of part] Cons.IH [of s] sp False show ?thesis by auto
  qed
qed

lemma join_sep_hd:
  "ps \<noteq> [] \<Longrightarrow> hd ps \<noteq> [] \<Longrightarrow> join_sep c ps \<noteq> [] \<and> hd (join_sep c ps) = hd (hd ps)"
  by (induction c ps rule: join_sep.induct) auto

lemma sanitize_relative:
  assumes "sanitize n \<noteq> []"
  shows "hd (sanitize n) \<noteq> CHR ''/''"
proof -
  define ps where "ps = filter (\<lambda>s. s \<noteq> [] \<and> s \<noteq> ''.'' \<and> s \<noteq> ''..'') (split_sep CHR ''/'' n)"
  from assms have ne: "ps \<noteq> []"
    by (auto simp: sanitize_def ps_def)
  then have "hd ps \<in> set ps" by simp
  then have h: "hd ps \<noteq> []" "CHR ''/'' \<notin> set (hd ps)"
    by (auto simp: ps_def dest: split_sep_no_sep)
  from join_sep_hd [OF ne h(1)] have "hd (sanitize n) = hd (hd ps)"
    by (simp add: sanitize_def ps_def)
  with h show ?thesis by (cases "hd ps") auto
qed

lemma join_below:
  assumes "out \<noteq> []" "last out \<noteq> CHR ''/''" "arc \<noteq> []" "hd arc \<noteq> CHR ''/''"
  shows "os_path_join out arc = out @ ''/'' @ arc"
  using assms by (simp add: os_path_join_def)

lemma makedirs_grows:
  assumes "prefix x (out @ ''/'' @ rest) \<or> prefix x out"
  shows "grows_within out w (snd (makedirs x w))"
  unfolding grows_within_def
proof (intro allI impI)
  fix p
  assume "os_path_exists (snd (makedirs x w)) p"
  from makedirs_creates [OF this] show "os_path_exists w p \<or> confined_to out p"
  proof
    assume px: "prefix p x"
    from assms have "confined_to out p"
    proof
      assume "prefix x (out @ ''/'' @ rest)"
      with px have "prefix p (out @ ''/'' @ rest)" by (rule prefix_order.trans)
      then show ?thesis by (rule prefix_confined)
    next
      assume "prefix x out"
      with px have "prefix p out" by (rule prefix_order.trans)
      then show ?thesis by (simp add: confined_to_def)
    qed
    then show ?thesis ..
  qed simp
qed

lemma makedirs_out_grows: "grows_within out w (snd (makedirs out w))"
  by (rule makedirs_grows) simp

lemma makedirs_target_grows: "grows_within out w (snd (makedirs (out @ ''/'' @ arc) w))"
  by (rule makedirs_grows [where rest = arc]) simp

lemma write_file_grows:
  "grows_within out w (snd (write_file (out @ ''/'' @ arc) c w))"
  unfolding grows_within_def
  by (auto dest!: write_file_creates simp: confined_to_def)

lemma zip_extract_member_grows:
  assumes out: "out \<noteq> []" "last out \<noteq> CHR ''/''"
  shows "grows_within out w (snd (zip_extract_member out pwd m w))"
proof -
  obtain n c enc where m: "m = (n, c, enc)" by (cases m)
  show ?thesis
  proof (cases "sanitize n = []")
    case True
    then show ?thesis
      by (simp add: m zip_extract_member_def Let_def makedirs_out_grows grows_within_refl)
  next
    case False
    with out sanitize_relative [OF False]
    have t: "os_path_join out (sanitize n) = out @ ''/'' @ sanitize n"
      by (intro join_below)
    show ?thesis
    proof (cases "endswith n ''/''")
      case True
      with False show ?thesis
        by (simp add: m zip_extract_member_def Let_def t makedirs_target_grows del: append.simps)
    next
      case dir: False
      define target where "target = out @ ''/'' @ sanitize n"
      define w1 where "w1 = (if os_path_dirname target \<noteq> [] \<and> \<not> os_path_exists w (os_path_dirname target)
                             then snd (makedirs (os_path_dirname target) w) else w)"
      have g1: "grows_within out w w1"
        unfolding w1_def target_def
        using dirname_prefix [of "out @ ''/'' @ sanitize n"]
        by (auto intro: makedirs_grows grows_within_refl)
      have g2: "grows_within out w1 (snd (write_file target c w1))"
        unfolding target_def by (rule write_file_grows)
      have "snd (zip_extract_member out pwd m w) = w1
            \<or> snd (zip_extract_member out pwd m w) = snd (write_file target c w1)"
        using False dir
        by (auto simp: m zip_extract_member_def Let_def t w1_def target_def
            split: prod.splits option.splits simp del: append.simps)
      with g1 g2 grows_within_trans [OF g1 g2] show ?thesis by auto
    qed
  qed
qed

lemma zip_extractall_grows:
  assumes out: "out \<noteq> []" "last out \<noteq> CHR ''/''"
  shows "grows_within out w (snd (zip_extractall out pwd ms w))"
proof (induction ms arbitrary: w)
  case Nil
  show ?case by (simp add: grows_within_refl)
next
  case (Cons m ms)
  obtain r w1 where r: "zip_extract_member out pwd m w = (r, w1)" by force
  with zip_extract_member_grows [OF out, of w pwd m] have g: "grows_within out w w1" by simp
  show ?case
  proof (cases r)
    case None
    with r g Cons.IH [of w1] show ?thesis
      by (auto intro: grows_within_trans)
  next
    case (Some e)
    with r g show ?thesis by simp
  qed
qed


lemma run_checked_snd: "snd (run_checked E cmd cwd w) = snd (run E cmd cwd w)"
  by (simp add: run_checked_def split: prod.splits sum.splits)

lemma extract_with_7z_grows:
  assumes conf: "extractors_confined E"
  shows "grows_within out w (snd (extract_with_7z E archive out pw w))"
proof (cases "detect_tool E [''7z'', ''7za'', ''7zz'']")
  case None
  then show ?thesis by (simp add: extract_with_7z_def grows_within_refl)
next
  case (Some sevenz)
  define flags where "flags = (case pw of None \<Rightarrow> [] | Some k \<Rightarrow> if k \<noteq> [] then [''-p'' @ k] else [])"
  from conf have "grows_within out w
      (snd (run E ([sevenz, ''x''] @ flags @ [''-y'', ''-o'' @ out, archive]) None w))"
    unfolding extractors_confined_def by blast
  then have "grows_within out w
      (snd (run_checked E ([sevenz, ''x''] @ flags @ [''-y'', ''-o'' @ out, archive]) None w))"
    by (simp only: run_checked_snd)
  then show ?thesis
    unfolding extract_with_7z_def Some option.case Let_def flags_def
    by (auto split: prod.splits option.splits)
qed

lemma rarfile_can_extract_grows: "grows_within out w (snd (rarfile_can_extract E w))"
  by (rule grows_within_same_fs)
     (simp add: rarfile_can_extract_def Let_def split: option.splits)

lemma extract_archive_grows:
  assumes conf: "extractors_confined E" and out: "out \<noteq> []" "last out \<noteq> CHR ''/''"
  shows "grows_within out w (snd (extract_archive E archive out pw w))"
proof -
  obtain r0 w1 where d: "ensure_dir out w = (r0, w1)" by force
  with makedirs_out_grows [of out w] have g0: "grows_within out w w1"
    by (simp add: ensure_dir_def)
  show ?thesis
  proof (cases r0)
    case (Some e)
    with d g0 show ?thesis by (simp add: extract_archive_def)
  next
    case None
    have "grows_within out w1 (snd (extract_archive E archive out pw w))"
    proof (cases "endswith (lower archive) ''.zip''")
      case True
      show ?thesis
      proof (cases "zip_open_read E archive w1")
        case (Inl e)
        with d None True show ?thesis
          by (simp add: extract_archive_def Let_def grows_within_refl)
      next
        case (Inr ms)
        define pwd where "pwd = (if truthy pw then pw else None)"
        obtain r2 w2 where x: "zip_extractall out pwd ms w1 = (r2, w2)" by force
        with zip_extractall_grows [OF out, of w1 pwd ms] have "grows_within out w1 w2" by simp
        with d None True Inr x show ?thesis
          unfolding extract_archive_def Let_def pwd_def [symmetric]
          by (cases r2) simp_all
      qed
    next
      case nz: False
      show ?thesis
      proof (cases "endswith (lower archive) ''.tar'' \<or> endswith (lower archive) ''.tar.gz''
                     \<or> endswith (lower archive) ''.tgz''")
        case True
        from conf have "grows_within out w1 (snd (tar_extractall E archive out w1))"
          unfolding extractors_confined_def by blast
        with d None nz True show ?thesis
          by (auto simp: extract_archive_def Let_def split: prod.splits option.splits)
      next
        case nt: False
        show ?thesis
        proof (cases "endswith (lower archive) ''.rar''")
          case True
          obtain a w2 where c: "rarfile_can_extract E w1 = (a, w2)" by force
          with rarfile_can_extract_grows [of out w1 E] have g2: "grows_within out w1 w2" by simp
          obtain r3 w3 where x: "rar_extractall E archive out pw w2 = (r3, w3)" by force
          from conf have "grows_within out w2 (snd (rar_extractall E archive out pw w2))"
            unfolding extractors_confined_def by blast
          with x g2 have g3: "grows_within out w1 w3"
            by (auto intro: grows_within_trans)
          have g4: "grows_within out w1 (snd (extract_with_7z E archive out pw w3))"
            using g3 extract_with_7z_grows [OF conf] by (rule grows_within_trans)
          have g5: "grows_within out w1 (snd (extract_with_7z E archive out pw w2))"
            using g2 extract_with_7z_grows [OF conf] by (rule grows_within_trans)
          from d None nz nt True c x g3 g4 g5 show ?thesis
            by (cases a; cases r3) (simp_all add: extract_archive_def Let_def)
        next
          case False
          from extract_with_7z_grows [OF conf, of out w1 archive pw] d None nz nt False
          show ?thesis
            by (auto simp: extract_archive_def Let_def split: prod.splits sum.splits)
        qed
      qed
    qed
    with g0 show ?thesis by (rule grows_within_trans)
  qed
qed

lemma extract_7z_archive_grows:
  assumes conf: "extractors_confined E"
  shows "grows_within out w (snd (extract_7z_archive E archive out pw w))"
proof -
  obtain r0 w1 where d: "ensure_dir out w = (r0, w1)" by force
  with makedirs_out_grows [of out w] have g0: "grows_within out w w1"
    by (simp add: ensure_dir_def)
  from conf have "grows_within out w1 (snd (py7zr_extractall E archive pw out w1))"
    unfolding extractors_confined_def by blast
  with g0 have "grows_within out w (snd (py7zr_extractall E archive pw out w1))"
    by (rule grows_within_trans)
  with d g0 show ?thesis
    by (cases r0) (auto simp: extract_7z_archive_def split: prod.splits option.splits)
qed

lemma extract_input_grows:
  assumes conf: "extractors_confined E" and out: "out \<noteq> []" "last out \<noteq> CHR ''/''"
  shows "grows_within out w (snd (extract_input E ext archive out pw w))"
  using extract_archive_grows [OF conf out] extract_7z_archive_grows [OF conf]
  by (simp add: extract_input_def grows_within_refl)

lemma sibling_not_confined: "\<not> confined_to out (out @ ''.zip'')"
  by (simp add: confined_to_def)

text \<open>
  Claim C10, as amended. Let the library extractors and the 7-Zip process create
  nothing outside the directory they extract into, and let \<open>tempfile\<close> pick a fresh
  name \<open>tmp\<close>. Whenever the output suffix is \<open>.rar\<close> and the extraction stage of the
  conversion succeeds, \<open>convert_archive_format\<close> raises
  \<open>FileNotFoundError(tmp/extracted.zip)\<close>: the extraction stage never creates that
  path, and \<open>zip_to_rar\<close> checks it before it looks for a RAR tool, so the result does
  not depend on whether one is installed.
\<close>

theorem convert_to_rar_fails:
  assumes conf: "extractors_confined E"
    and tmp: "tmp = mkdtemp_name E w" "tmp \<noteq> []" "last tmp \<noteq> CHR ''/''"
    and fresh: "\<not> os_path_exists w tmp" "\<forall>p. under tmp p \<longrightarrow> \<not> os_path_exists w p"
    and rar: "lower (path_suffix output_path) = ''.rar''"
    and extracted: "extract_input E (lower (path_suffix input_path)) input_path
                      (tmp @ ''/extracted'') password (w\<lparr>fs := fs w @ [(tmp, Dir)]\<rparr>) = (Inr d, w1)"
  shows "fst (convert_archive_format E input_path output_path password level w)
           = Inl (FileNotFoundError (tmp @ ''/extracted.zip''))"
proof -
  let ?dir = "tmp @ ''/extracted''"
  let ?w0 = "w\<lparr>fs := fs w @ [(tmp, Dir)]\<rparr>"
  have j: "os_path_join tmp ''extracted'' = ?dir"
    using tmp by (simp add: os_path_join_def)
  have n: "?dir \<noteq> []" "last ?dir \<noteq> CHR ''/''" by simp_all
  from extract_input_grows [OF conf n, of ?w0 "lower (path_suffix input_path)" input_path password]
    extracted
  have g: "grows_within ?dir ?w0 w1" by simp
  have u: "under tmp (?dir @ ''.zip'')"
    using tmp by (simp add: under_def dir_prefix_def)
  with fresh have "\<not> os_path_exists w (?dir @ ''.zip'')" by blast
  moreover have "?dir @ ''.zip'' \<noteq> tmp" by simp
  ultimately have "\<not> os_path_exists ?w0 (?dir @ ''.zip'')"
    by (simp add: os_path_exists_def map_add_def split: option.splits)
  with g sibling_not_confined [of ?dir] have ne: "\<not> os_path_exists w1 (?dir @ ''.zip'')"
    unfolding grows_within_def by blast
  then have z: "zip_to_rar E (?dir @ ''.zip'') output_path password None w1
          = (Inl (FileNotFoundError (?dir @ ''.zip'')), w1)"
    by (simp add: zip_to_rar_def)
  have "create_output E ''.rar'' ?dir output_path password level w1
          = (Inl (FileNotFoundError (?dir @ ''.zip'')), w1)"
    unfolding create_output_def using z by simp
  with extracted fresh(1) rar show ?thesis
    by (simp add: convert_archive_format_def TemporaryDirectory_def Let_def j tmp(1) [symmetric])
qed


lemma demo_confined: "extractors_confined demo_env"
  by (simp add: extractors_confined_def demo_env_def grows_within_refl)

lemma demo_nothing_below:
  "\<forall>p. under ''/tmp/tmpxxxxxxxxxx'' p \<longrightarrow> \<not> os_path_exists demo_world p"
  by (auto simp: os_path_exists_def demo_world_def under_def dir_prefix_def split: if_splits)

theorem convert_to_rar_fails_witness:
  "extractors_confined demo_env
   \<and> \<not> os_path_exists demo_world (mkdtemp_name demo_env demo_world)
   \<and> lower (path_suffix ''/out/b.rar'') = ''.rar''
   \<and> fst (extract_input demo_env (lower (path_suffix ''/in/a.zip'')) ''/in/a.zip''
             (''/tmp/tmpxxxxxxxxxx'' @ ''/extracted'') None
             (demo_world\<lparr>fs := fs demo_world @ [(''/tmp/tmpxxxxxxxxxx'', Dir)]\<rparr>))
       = Inr ''/tmp/tmpxxxxxxxxxx/extracted''
   \<and> fst (convert_archive_format demo_env ''/in/a.zip'' ''/out/b.rar'' None 5 demo_world)
       = Inl (FileNotFoundError ''/tmp/tmpxxxxxxxxxx/extracted.zip'')"
proof -
  have t: "''/tmp/tmpxxxxxxxxxx'' = mkdtemp_name demo_env demo_world"
    by (simp add: demo_mkdtemp)
  have f: "\<not> os_path_exists demo_world ''/tmp/tmpxxxxxxxxxx''"
    by (rule demo_fresh)
  have r: "lower (path_suffix ''/out/b.rar'') = ''.rar''"
    by code_simp
  have x: "fst (extract_input demo_env (lower (path_suffix ''/in/a.zip'')) ''/in/a.zip''
             (''/tmp/tmpxxxxxxxxxx'' @ ''/extracted'') None
             (demo_world\<lparr>fs := fs demo_world @ [(''/tmp/tmpxxxxxxxxxx'', Dir)]\<rparr>))
       = Inr ''/tmp/tmpxxxxxxxxxx/extracted''"
    by code_simp
  then obtain w1 where e: "extract_input demo_env (lower (path_suffix ''/in/a.zip'')) ''/in/a.zip''
             (''/tmp/tmpxxxxxxxxxx'' @ ''/extracted'') None
             (demo_world\<lparr>fs := fs demo_world @ [(''/tmp/tmpxxxxxxxxxx'', Dir)]\<rparr>)
       = (Inr ''/tmp/tmpxxxxxxxxxx/extracted'', w1)"
    by (metis prod.collapse)
  have "fst (convert_archive_format demo_env ''/in/a.zip'' ''/out/b.rar'' None 5 demo_world)
       = Inl (FileNotFoundError (''/tmp/tmpxxxxxxxxxx'' @ ''/extracted.zip''))"
    by (rule convert_to_rar_fails [OF demo_confined t _ _ f demo_nothing_below r e]) simp_all
  with demo_confined f r x show ?thesis
    by (simp add: demo_mkdtemp)
qed

text \<open>
  Claim C10 as stated fails: the error depends on the tools that are installed. With
  neither \<open>rarfile\<close> nor 7-Zip, a RAR input cannot be extracted and the conversion
  raises \<open>RuntimeError\<close> from the extraction stage instead; with them it raises the
  file-not-found error.
\<close>

theorem convert_to_rar_depends_on_tools:
  "fst (convert_archive_format
          (demo_env\<lparr>rarfile_imported := False, which := (\<lambda>name. None)\<rparr>)
          ''/in/a.rar'' ''/out/b.rar'' None 5 demo_world)
     = Inl (RuntimeError ''7-Zip (7z) not found. Install 7-Zip or add it to PATH.'')
   \<and> fst (convert_archive_format demo_env ''/in/a.rar'' ''/out/b.rar'' None 5 demo_world)
     = Inl (FileNotFoundError ''/tmp/tmpxxxxxxxxxx/extracted.zip'')"
  by code_simp

subsection \<open>The ZIP round trip\<close>











lemma is_file_mkdir_one: "is_file (mkdir_one q w) p = is_file w p"
  by (auto simp: mkdir_one_def is_file_def os_path_exists_def map_add_def
      split: option.splits node.splits)








lemma under_belowD:
  assumes "out \<noteq> []" "last out \<noteq> CHR ''/''" "under out q"
  shows "\<exists>m. m \<noteq> [] \<and> q = out @ ''/'' @ m"
proof -
  from assms have "prefix (out @ ''/'') q" "length (out @ ''/'') < length q"
    by (simp_all add: under_def dir_prefix_def)
  then obtain m where "q = (out @ ''/'') @ m" "m \<noteq> []"
    by (auto elim!: prefixE)
  then show ?thesis by auto
qed





lemma walk_files_fs: "fs w = fs w' \<Longrightarrow> walk_files d w = walk_files d w'"
  by (simp add: walk_files_def)






















end
